theory Spec2Isabelle
  imports Complex_Main "HOL-Library.Sublist"
begin

section \<open>Thermal analysis report and plot generator\<close>

text \<open>
  The development follows \<^verbatim>\<open>Thermal_plot_code_V3.py\<close>: a script that reads a table of
  component temperatures over time, interpolates every component on a shared fine time
  grid, groups the components into decks, and writes plots and a compliance report.

  Times and temperatures are Python floats in the script; they are modelled as
  \<^typ>\<open>real\<close> numbers, so the arithmetic is exact and the rounding of binary floating
  point is not part of the model. A cell of the data table that is blank or not numeric
  (what \<^verbatim>\<open>pd.to_numeric(..., errors='coerce')\<close> turns into NaN) is \<^term>\<open>None\<close>.
\<close>

subsection \<open>Strings\<close>

text \<open>
  \<^verbatim>\<open>s.split(sep)[0]\<close>: the part of \<open>s\<close> before the first occurrence of \<open>sep\<close>, and all of
  \<open>s\<close> when \<open>sep\<close> does not occur. The script only calls it with the non-empty literals
  \<^verbatim>\<open>'.T'\<close> and \<^verbatim>\<open>'_'\<close>.
\<close>

fun split_head :: "string \<Rightarrow> string \<Rightarrow> string" where
  "split_head sep [] = []"
| "split_head sep (c # cs) = (if prefix sep (c # cs) then [] else c # split_head sep cs)"

text \<open>Lines 302-303 (and 187-188): the display name and the deck prefix of a component.\<close>

definition display_name_of :: "string \<Rightarrow> string" where
  "display_name_of component_name = split_head ''.T'' component_name"

definition deck_prefix_of :: "string \<Rightarrow> string" where
  "deck_prefix_of component_name = split_head ''_'' (display_name_of component_name)"

subsection \<open>Deck grouping (lines 300-306)\<close>

text \<open>
  \<^verbatim>\<open>deck_groups\<close> is a Python dict of lists; a dict keeps its keys in insertion order, so
  it is an association list here. One step of the loop appends the component to the list
  of its deck, creating the deck at the end when it is new.
\<close>

fun deck_append :: "string \<Rightarrow> string \<Rightarrow> (string \<times> string list) list \<Rightarrow> (string \<times> string list) list" where
  "deck_append d c [] = [(d, [c])]"
| "deck_append d c ((k, v) # g) =
     (if k = d then (k, v @ [c]) # g else (k, v) # deck_append d c g)"

definition deck_groups :: "string list \<Rightarrow> (string \<times> string list) list" where
  "deck_groups all_component_names =
     fold (\<lambda>component_name g. deck_append (deck_prefix_of component_name) component_name g)
       all_component_names []"

subsection \<open>The grouping as the specification words it\<close>

text \<open>
  The specification: strip everything from the first literal \<^verbatim>\<open>.T\<close> marker onward, then
  take the substring before the first underscore; decks in first-seen order, members in
  first-seen order.
\<close>

definition first_occurrence :: "string \<Rightarrow> string \<Rightarrow> nat option" where
  "first_occurrence marker s = find (\<lambda>i. prefix marker (drop i s)) [0..<Suc (length s)]"

definition strip_from_marker :: "string \<Rightarrow> string \<Rightarrow> string" where
  "strip_from_marker marker s =
     (case first_occurrence marker s of None \<Rightarrow> s | Some i \<Rightarrow> take i s)"

definition spec_deck_name :: "string \<Rightarrow> string" where
  "spec_deck_name ident = takeWhile (\<lambda>c. c \<noteq> CHR ''_'') (strip_from_marker ''.T'' ident)"

definition first_seen :: "'a list \<Rightarrow> 'a list" where
  "first_seen xs = rev (remdups (rev xs))"

definition spec_grouping :: "string list \<Rightarrow> (string \<times> string list) list" where
  "spec_grouping idents =
     map (\<lambda>d. (d, filter (\<lambda>c. spec_deck_name c = d) idents))
       (first_seen (map spec_deck_name idents))"

subsection \<open>Errors\<close>

text \<open>
  The exceptions that the processing part of the script can raise. None of them is caught,
  so each one aborts the run.
\<close>

datatype error =
    KeyError \<comment> \<open>\<^verbatim>\<open>data_df[[..., component_name]]\<close> for a column that is not there\<close>
  | PchipValueError \<comment> \<open>\<^verbatim>\<open>pchip_interpolate\<close>: \<open>x\<close> is not strictly increasing\<close>
  | EmptyReduction \<comment> \<open>\<^verbatim>\<open>np.min\<close>, \<^verbatim>\<open>np.max\<close> of a zero-size array (a ValueError)\<close>
  | IndexError \<comment> \<open>\<^verbatim>\<open>np.where(...)[0][0]\<close> when no element matches\<close>

subsection \<open>Data\<close>

text \<open>
  \<^verbatim>\<open>data_df\<close> after loading: the column \<^verbatim>\<open>'Time, min'\<close>, taken to be numeric in every
  row, and one column per component, in file order. \<^verbatim>\<open>limits_map\<close> maps a component name
  to its row of the limits file.
\<close>

record data_frame =
  time_min :: "real list"
  columns :: "(string \<times> real option list) list"

record limits =
  Acceptance_Min :: real
  Acceptance_Max :: real
  Design_Min :: real
  Design_Max :: real

text \<open>
  \<^verbatim>\<open>parse_range\<close> (lines 84-87) returns the string \<^verbatim>\<open>'auto'\<close> or a list of floats, of
  which the script reads the elements 0 and 1.
\<close>

datatype range = Auto | Fixed real real

text \<open>
  The settings read from \<^verbatim>\<open>config.ini\<close> that the processing part uses, and the three
  zoomed Y ranges, which are parsed (lines 97, 99, 100) and never read again. The X ranges
  of the zoomed windows are indexed without a test for \<^verbatim>\<open>'auto'\<close>, so they are pairs.
\<close>

record config =
  generate_individual_plots :: bool
  excluded_components :: "string list"
  manual_ylimits :: "string \<rightharpoonup> real \<times> real"
  full_plot_y_range :: range
  deck_plot_y_range :: range
  zoom_plot_y_range :: range
  deck_zoom_plot_y_range :: range
  deck_last_orbit_plot_y_range :: range
  zoom_plot_x_range :: "real \<times> real"
  deck_zoom_plot_x_range :: "real \<times> real"
  deck_last_orbit_plot_x_range :: "real \<times> real"

text \<open>
  What the renderer receives for one figure: which figure it is, the curves as
  (times, values) pairs of lists, the horizontal reference lines and the Y limits.
\<close>

datatype plot_kind = Full | Zoomed | Deck_Full | Deck_Zoomed | Deck_Last_Orbit

record plot =
  plot_kind :: plot_kind
  plot_entity :: string
  plot_curves :: "(real list \<times> real list) list"
  plot_hlines :: "real list"
  plot_ylim :: "real \<times> real"

subsection \<open>The fine grid (lines 179-180)\<close>

text \<open>\<^verbatim>\<open>np.linspace(a, b, n)\<close>: \<open>n\<close> evenly spaced points from \<open>a\<close> to \<open>b\<close>, both included.\<close>

definition linspace :: "real \<Rightarrow> real \<Rightarrow> nat \<Rightarrow> real list" where
  "linspace a b n = map (\<lambda>i. a + real i * ((b - a) / real (n - 1))) [0..<n]"

definition num_interp_points :: nat where
  "num_interp_points = 5000"

text \<open>
  For an empty table pandas gives NaN for both extremes and the grid is all NaN; no
  comparison with it holds and every component is skipped before the grid is read. The
  model gives the empty grid there.
\<close>

definition time_fine_of :: "real list \<Rightarrow> real list" where
  "time_fine_of time_minutes_original =
     (if time_minutes_original = [] then []
      else linspace (Min (set time_minutes_original)) (Max (set time_minutes_original))
             num_interp_points)"

subsection \<open>The interpolation routine\<close>

text \<open>
  \<^verbatim>\<open>scipy.interpolate.pchip_interpolate(xi, yi, x)\<close> is a library routine. The definitions
  below follow its documented algorithm: the derivative at an interior point is the
  weighted harmonic mean of the two adjacent slopes, or zero where they differ in sign or
  one is zero; the end derivatives come from the three-point formula, limited to
  preserve shape; two points give the straight line. A cubic Hermite piece is
  evaluated on each interval, and outside the data the first and the last piece are
  continued (the routine extrapolates by default). It raises a ValueError unless \<open>xi\<close> is
  strictly increasing.
\<close>

definition np_diff :: "real list \<Rightarrow> real list" where
  "np_diff xs = map2 (\<lambda>a b. b - a) xs (tl xs)"

definition pchip_edge_case :: "real \<Rightarrow> real \<Rightarrow> real \<Rightarrow> real \<Rightarrow> real" where
  "pchip_edge_case h0 h1 m0 m1 =
     (let d = ((2 * h0 + h1) * m0 - h0 * m1) / (h0 + h1)
      in if sgn d \<noteq> sgn m0 then 0
         else if sgn m0 \<noteq> sgn m1 \<and> \<bar>d\<bar> > 3 * \<bar>m0\<bar> then 3 * m0
         else d)"

definition pchip_interior :: "real list \<Rightarrow> real list \<Rightarrow> nat \<Rightarrow> real" where
  "pchip_interior hk mk k =
     (let h0 = hk ! (k - 1); h1 = hk ! k; m0 = mk ! (k - 1); m1 = mk ! k
      in if sgn m0 \<noteq> sgn m1 \<or> m0 = 0 \<or> m1 = 0 then 0
         else (let w1 = 2 * h1 + h0; w2 = h1 + 2 * h0
               in 1 / ((w1 / m0 + w2 / m1) / (w1 + w2))))"

definition pchip_derivatives :: "real list \<Rightarrow> real list \<Rightarrow> real list" where
  "pchip_derivatives xi yi =
     (let hk = np_diff xi; mk = map2 (\<lambda>dy h. dy / h) (np_diff yi) hk; n = length xi
      in if n = 2 then [mk ! 0, mk ! 0]
         else [pchip_edge_case (hk ! 0) (hk ! 1) (mk ! 0) (mk ! 1)]
              @ map (pchip_interior hk mk) [1..<n - 1]
              @ [pchip_edge_case (hk ! (n - 2)) (hk ! (n - 3)) (mk ! (n - 2)) (mk ! (n - 3))])"

definition pchip_piece :: "real list \<Rightarrow> real \<Rightarrow> nat" where
  "pchip_piece xi x = min (length xi - 2) (length (takeWhile (\<lambda>a. a \<le> x) xi) - 1)"

definition hermite :: "real \<Rightarrow> real \<Rightarrow> real \<Rightarrow> real \<Rightarrow> real \<Rightarrow> real \<Rightarrow> real \<Rightarrow> real" where
  "hermite x0 x1 y0 y1 d0 d1 x =
     (let h = x1 - x0; t = (x - x0) / h
      in (2 * t ^ 3 - 3 * t ^ 2 + 1) * y0 + (t ^ 3 - 2 * t ^ 2 + t) * h * d0
         + (3 * t ^ 2 - 2 * t ^ 3) * y1 + (t ^ 3 - t ^ 2) * h * d1)"

definition pchip_eval :: "real list \<Rightarrow> real list \<Rightarrow> real list \<Rightarrow> real \<Rightarrow> real" where
  "pchip_eval xi yi dk x =
     (let i = pchip_piece xi x
      in hermite (xi ! i) (xi ! (i + 1)) (yi ! i) (yi ! (i + 1)) (dk ! i) (dk ! (i + 1)) x)"

definition pchip_interpolate :: "real list \<Rightarrow> real list \<Rightarrow> real list \<Rightarrow> error + real list" where
  "pchip_interpolate xi yi x =
     (if length xi < 2 \<or> \<not> sorted_wrt (<) xi then Inl PchipValueError
      else Inr (map (pchip_eval xi yi (pchip_derivatives xi yi)) x))"

subsection \<open>Cleaning one component\<close>

text \<open>
  \<^verbatim>\<open>temp_df = data_df[['Time, min', component_name]].copy()\<close> pairs the time column with
  the component's column, row by row; \<^verbatim>\<open>dropna\<close> removes the rows without a value.
\<close>

definition dropna :: "(real \<times> real option) list \<Rightarrow> (real \<times> real) list" where
  "dropna rows = List.map_filter (\<lambda>(t, v). map_option (Pair t) v) rows"

text \<open>
  Lines 195-198, the individual-plot path: coerce, drop, sort by time. \<^verbatim>\<open>sort_values\<close> is
  modelled by the stable insertion sort \<^const>\<open>sort_key\<close>. The script calls it with the
  default algorithm, which pandas does not document as stable; rows with equal times are
  rejected by the interpolation routine, and the extremes of the raw samples do not depend
  on their order, so the order among them is not observed.
\<close>

definition clean_individual :: "real list \<Rightarrow> real option list \<Rightarrow> (real \<times> real) list" where
  "clean_individual time_minutes col = sort_key fst (dropna (zip time_minutes col))"

text \<open>Lines 333-335, the deck and report path: coerce and drop; there is no sort.\<close>

definition clean_deck :: "real list \<Rightarrow> real option list \<Rightarrow> (real \<times> real) list" where
  "clean_deck time_minutes col = dropna (zip time_minutes col)"

subsection \<open>Y limits\<close>

text \<open>\<^verbatim>\<open>np.floor(lo / 5) * 5, np.ceil(hi / 5) * 5\<close>: the envelope rounded outward to multiples of 5.\<close>

definition round_outward :: "real \<Rightarrow> real \<Rightarrow> real \<times> real" where
  "round_outward lo hi = (of_int \<lfloor>lo / 5\<rfloor> * 5, of_int \<lceil>hi / 5\<rceil> * 5)"

definition warning_component :: "string \<Rightarrow> string" where
  "warning_component component_name =
     ''  WARNING: Data for '' @ [CHR 0x27] @ component_name @ [CHR 0x27]
       @ '' exceeds default Y-limits. Auto-adjusting.''"

definition warning_deck :: "string \<Rightarrow> string" where
  "warning_deck deck_name =
     ''  WARNING: Data for deck '' @ [CHR 0x27] @ deck_name @ [CHR 0x27]
       @ '' exceeds default Y-limits. Auto-adjusting.''"

text \<open>Lines 236-247: the Y limits of a component's full plot, and what is printed.\<close>

definition full_plot_ylim :: "config \<Rightarrow> string \<Rightarrow> real \<Rightarrow> real \<Rightarrow> (real \<times> real) \<times> string list" where
  "full_plot_ylim cfg component_name sim_min sim_max =
     (case manual_ylimits cfg component_name of
        Some r \<Rightarrow> (r, [])
      | None \<Rightarrow>
          (case full_plot_y_range cfg of
             Fixed a b \<Rightarrow>
               if sim_min \<ge> a \<and> sim_max \<le> b then ((a, b), [])
               else (round_outward sim_min sim_max, [warning_component component_name])
           | Auto \<Rightarrow> (round_outward sim_min sim_max, [warning_component component_name])))"

text \<open>Lines 379-389: the Y limits of a deck's full plot.\<close>

definition deck_plot_ylim :: "config \<Rightarrow> string \<Rightarrow> real \<Rightarrow> real \<Rightarrow> (real \<times> real) \<times> string list" where
  "deck_plot_ylim cfg deck_name deck_min deck_max =
     (case manual_ylimits cfg deck_name of
        Some r \<Rightarrow> (r, [])
      | None \<Rightarrow>
          (case deck_plot_y_range cfg of
             Fixed a b \<Rightarrow>
               if deck_min \<ge> a \<and> deck_max \<le> b then ((a, b), [])
               else (round_outward deck_min deck_max, [warning_deck deck_name])
           | Auto \<Rightarrow> (round_outward deck_min deck_max, [warning_deck deck_name])))"

text \<open>
  A boolean mask over the grid, applied to the grid and to the series:
  \<^verbatim>\<open>mask = (time_fine >= r[0]) & (time_fine <= r[1])\<close>, \<^verbatim>\<open>time_fine[mask]\<close>, \<^verbatim>\<open>data[mask]\<close>.
\<close>

definition masked :: "real \<times> real \<Rightarrow> real list \<Rightarrow> 'a list \<Rightarrow> (real \<times> 'a) list" where
  "masked r time_axis values = filter (\<lambda>(t, v). fst r \<le> t \<and> t \<le> snd r) (zip time_axis values)"

subsection \<open>Text formatting\<close>

definition newline :: string where
  "newline = [CHR 0x0A]"

text \<open>The format specification \<^verbatim>\<open>:<w\<close>: pad with spaces on the right up to width \<open>w\<close>.\<close>

definition ljust :: "nat \<Rightarrow> string \<Rightarrow> string" where
  "ljust w s = s @ replicate (w - length s) CHR '' ''"

fun show_nat :: "nat \<Rightarrow> string" where
  "show_nat n =
     (if n < 10 then [''0123456789'' ! n]
      else show_nat (n div 10) @ [''0123456789'' ! (n mod 10)])"

definition round_half_even :: "real \<Rightarrow> int" where
  "round_half_even y =
     (let n = \<lfloor>y\<rfloor>; r = y - of_int n
      in if r < 1 / 2 then n else if r > 1 / 2 then n + 1 else if even n then n else n + 1)"

text \<open>
  The format specification \<^verbatim>\<open>.df\<close>: the number in fixed-point notation with \<open>d\<close>
  digits after the point, rounded to the nearest, ties to even, with the sign of the
  number.
\<close>

definition format_f :: "nat \<Rightarrow> real \<Rightarrow> string" where
  "format_f d x =
     (let s = show_nat (nat (round_half_even (\<bar>x\<bar> * 10 ^ d)));
          s' = replicate (Suc d - length s) CHR ''0'' @ s;
          k = length s' - d
      in (if x < 0 then ''-'' else []) @ take k s' @ (if d = 0 then [] else ''.'' @ drop k s'))"

text \<open>\<^verbatim>\<open>s.replace('_', ' ')\<close>\<close>

definition underscores_to_spaces :: "string \<Rightarrow> string" where
  "underscores_to_spaces s = map (\<lambda>c. if c = CHR ''_'' then CHR '' '' else c) s"

subsection \<open>The report (lines 309-364)\<close>

text \<open>
  One line of a deck's table: five left-justified fields of widths 25, 15, 18, 15 and 10
  (lines 320, 360 and 362 use the same layout).
\<close>

definition report_row :: "string \<Rightarrow> string \<Rightarrow> string \<Rightarrow> string \<Rightarrow> string \<Rightarrow> string" where
  "report_row component sim_range acc_range margin status =
     ljust 25 component @ '' | '' @ ljust 15 sim_range @ '' | '' @ ljust 18 acc_range
       @ '' | '' @ ljust 15 margin @ '' | '' @ ljust 10 status @ newline"

text \<open>Lines 310-313; \<open>now\<close> is the formatted reading of the clock.\<close>

definition report_header :: "string \<Rightarrow> string" where
  "report_header now =
     replicate 85 CHR ''='' @ newline
     @ ''SATELLITE THERMAL ANALYSIS REPORT'' @ newline
     @ replicate 85 CHR ''='' @ newline
     @ ''Generated on: '' @ now @ newline @ newline"

text \<open>Lines 317-322.\<close>

definition deck_header :: "string \<Rightarrow> string" where
  "deck_header deck_name =
     (let header = report_row ''Component'' ''Sim Range [C]'' ''Accept Range [C]''
                     ''Hot Margin [C]'' ''Status''
      in replicate 85 CHR ''-'' @ newline
         @ ''Analysis for Deck: '' @ deck_name @ newline
         @ replicate 85 CHR ''-'' @ newline @ newline
         @ header
         @ replicate (length header) CHR ''-'' @ newline)"

subsection \<open>Compliance of one component (lines 352-362)\<close>

definition hot_margin_of :: "limits \<Rightarrow> real \<Rightarrow> real" where
  "hot_margin_of lims sim_max = Acceptance_Max lims - sim_max"

definition cold_margin_of :: "limits \<Rightarrow> real \<Rightarrow> real" where
  "cold_margin_of lims sim_min = sim_min - Acceptance_Min lims"

definition status_of :: "real \<Rightarrow> real \<Rightarrow> string" where
  "status_of hot_margin cold_margin =
     (if hot_margin \<ge> 0 \<and> cold_margin \<ge> 0 then ''PASS'' else ''FAIL'')"

definition compliance_row :: "string \<Rightarrow> real \<Rightarrow> real \<Rightarrow> limits option \<Rightarrow> string" where
  "compliance_row display_name sim_min sim_max entry =
     (case entry of
        Some lims \<Rightarrow>
          (let hot_margin = hot_margin_of lims sim_max;
               cold_margin = cold_margin_of lims sim_min;
               status = status_of hot_margin cold_margin;
               sim_range_str = ''['' @ ljust 6 (format_f 1 sim_min) @ '', ''
                                @ ljust 6 (format_f 1 sim_max) @ '']'';
               acc_range_str = ''['' @ ljust 6 (format_f 0 (Acceptance_Min lims)) @ '', ''
                                @ ljust 6 (format_f 0 (Acceptance_Max lims)) @ '']''
           in report_row (underscores_to_spaces display_name) sim_range_str acc_range_str
                (format_f 2 hot_margin) status)
      | None \<Rightarrow>
          report_row (underscores_to_spaces display_name) ''N/A'' ''N/A'' ''N/A'' ''NO LIMITS'')"

subsection \<open>Individual plots of one component (lines 186-292)\<close>

definition skipping_message :: "string \<Rightarrow> string" where
  "skipping_message component_name =
     ''  SKIPPING: Not enough valid data points for '' @ [CHR 0x27] @ component_name
       @ [CHR 0x27] @ ''.''"

text \<open>
  The result is what the iteration prints and the figures it saves. A component with
  fewer than two valid points prints the skip message and saves nothing. The zoomed
  figure is left out when no grid point or no raw sample lies in the zoom window; its Y
  limits are the rounded envelope of the interpolated values in the window (line 279).
\<close>

definition individual_plots_for ::
  "config \<Rightarrow> data_frame \<Rightarrow> real list \<Rightarrow> string \<Rightarrow> error + (string list \<times> plot list)" where
  "individual_plots_for cfg data_df time_fine component_name =
     (case map_of (columns data_df) component_name of
        None \<Rightarrow> Inl KeyError
      | Some col \<Rightarrow>
         (let temp_df = clean_individual (time_min data_df) col
          in if length temp_df < 2 then Inr ([skipping_message component_name], [])
             else
              (let local_time_minutes = map fst temp_df;
                   component_data_raw = map snd temp_df
               in case pchip_interpolate local_time_minutes component_data_raw time_fine of
                    Inl e \<Rightarrow> Inl e
                  | Inr component_data_interp \<Rightarrow>
                     if component_data_interp = [] then Inl EmptyReduction
                     else
                      (let sim_min = Min (set component_data_interp);
                           sim_max = Max (set component_data_interp);
                           yl = full_plot_ylim cfg component_name sim_min sim_max;
                           fig_full = \<lparr>plot_kind = Full, plot_entity = component_name,
                                       plot_curves = [(time_fine, component_data_interp)],
                                       plot_hlines = [], plot_ylim = fst yl\<rparr>;
                           zoomed = masked (zoom_plot_x_range cfg) time_fine component_data_interp;
                           data_zoomed_raw = map snd (masked (zoom_plot_x_range cfg)
                                                        local_time_minutes component_data_raw)
                       in if zoomed = [] then Inr (snd yl, [fig_full])
                          else if data_zoomed_raw = [] then Inr (snd yl, [fig_full])
                          else
                           (let data_zoomed_interp = map snd zoomed;
                                fig_zoomed =
                                  \<lparr>plot_kind = Zoomed, plot_entity = component_name,
                                   plot_curves = [(map fst zoomed, data_zoomed_interp)],
                                   plot_hlines = [Max (set data_zoomed_raw), Min (set data_zoomed_raw)],
                                   plot_ylim = round_outward (Min (set data_zoomed_interp))
                                                 (Max (set data_zoomed_interp))\<rparr>
                            in Inr (snd yl, [fig_full, fig_zoomed]))))))"

fun individual_loop ::
  "config \<Rightarrow> data_frame \<Rightarrow> real list \<Rightarrow> string list \<Rightarrow> error + (string list \<times> plot list)" where
  "individual_loop cfg data_df time_fine [] = Inr ([], [])"
| "individual_loop cfg data_df time_fine (component_name # rest) =
     (case individual_plots_for cfg data_df time_fine component_name of
        Inl e \<Rightarrow> Inl e
      | Inr (printed, figs) \<Rightarrow>
         (case individual_loop cfg data_df time_fine rest of
            Inl e \<Rightarrow> Inl e
          | Inr (printed', figs') \<Rightarrow> Inr (printed @ printed', figs @ figs')))"

subsection \<open>One component of a deck (lines 329-362)\<close>

text \<open>
  The result is \<^term>\<open>None\<close> when the iteration ends at one of its two \<^verbatim>\<open>continue\<close>
  statements; nothing is printed and nothing is written there. Otherwise it is the
  interpolated series, appended to \<^verbatim>\<open>all_interp_data_for_deck\<close>, and the line written to
  the report.
\<close>

record deck_item =
  item_interp :: "real list"
  item_row :: string

definition deck_component ::
  "config \<Rightarrow> (string \<rightharpoonup> limits) \<Rightarrow> data_frame \<Rightarrow> real list \<Rightarrow> string \<Rightarrow> error + deck_item option" where
  "deck_component cfg limits_map data_df time_fine component_name =
     (if component_name \<in> set (excluded_components cfg) then Inr None
      else
       (case map_of (columns data_df) component_name of
          None \<Rightarrow> Inl KeyError
        | Some col \<Rightarrow>
           (let display_name = display_name_of component_name;
                temp_df = clean_deck (time_min data_df) col
            in if length temp_df < 2 then Inr None
               else
                (case pchip_interpolate (map fst temp_df) (map snd temp_df) time_fine of
                   Inl e \<Rightarrow> Inl e
                 | Inr component_data_interp \<Rightarrow>
                    if component_data_interp = [] then Inl EmptyReduction
                    else
                     (let sim_min = Min (set component_data_interp);
                          sim_max = Max (set component_data_interp)
                      in Inr (Some \<lparr>item_interp = component_data_interp,
                                    item_row = compliance_row display_name sim_min sim_max
                                                 (limits_map component_name)\<rparr>))))))"

fun deck_components ::
  "config \<Rightarrow> (string \<rightharpoonup> limits) \<Rightarrow> data_frame \<Rightarrow> real list \<Rightarrow> string list \<Rightarrow> error + deck_item list" where
  "deck_components cfg limits_map data_df time_fine [] = Inr []"
| "deck_components cfg limits_map data_df time_fine (component_name # rest) =
     (case deck_component cfg limits_map data_df time_fine component_name of
        Inl e \<Rightarrow> Inl e
      | Inr r \<Rightarrow>
         (case deck_components cfg limits_map data_df time_fine rest of
            Inl e \<Rightarrow> Inl e
          | Inr items \<Rightarrow> Inr (case r of None \<Rightarrow> items | Some item \<Rightarrow> item # items)))"

subsection \<open>One deck (lines 315-449)\<close>

text \<open>\<^verbatim>\<open>np.where(time_fine >= t0)[0][0]\<close>: the index of the first grid point at or after \<open>t0\<close>.\<close>

definition window_start_index :: "real list \<Rightarrow> real \<Rightarrow> error + nat" where
  "window_start_index time_fine t0 =
     (case find (\<lambda>i. time_fine ! i \<ge> t0) [0..<length time_fine] of
        None \<Rightarrow> Inl IndexError
      | Some i \<Rightarrow> Inr i)"

text \<open>
  Lines 412-413 and 438-439: the minimum and the maximum of
  \<^verbatim>\<open>np.array(all_interp_data_for_deck)[:, start:]\<close>, every series from the start index to its end.
\<close>

definition deck_window_envelope :: "real list list \<Rightarrow> real list \<Rightarrow> real \<Rightarrow> error + real \<times> real" where
  "deck_window_envelope all_interp_data_for_deck time_fine t0 =
     (case window_start_index time_fine t0 of
        Inl e \<Rightarrow> Inl e
      | Inr start \<Rightarrow>
         (let window = concat (map (drop start) all_interp_data_for_deck)
          in if window = [] then Inl EmptyReduction
             else Inr (Min (set window), Max (set window))))"

text \<open>The curves drawn in a zoomed deck figure (lines 345-350): one per series that has a grid point in the window.\<close>

definition window_curves :: "real \<times> real \<Rightarrow> real list \<Rightarrow> real list list \<Rightarrow> (real list \<times> real list) list" where
  "window_curves r time_fine all_interp =
     map (\<lambda>m. (map fst m, map snd m))
       (filter (\<lambda>m. m \<noteq> []) (map (masked r time_fine) all_interp))"

record deck_output =
  deck_printed :: "string list"
  deck_report :: string
  deck_figures :: "plot list"

definition process_deck ::
  "config \<Rightarrow> (string \<rightharpoonup> limits) \<Rightarrow> data_frame \<Rightarrow> real list \<Rightarrow> string \<times> string list
     \<Rightarrow> error + deck_output" where
  "process_deck cfg limits_map data_df time_fine deck =
     (let deck_name = fst deck; component_list = snd deck
      in case deck_components cfg limits_map data_df time_fine component_list of
           Inl e \<Rightarrow> Inl e
         | Inr items \<Rightarrow>
            (let all_interp_data_for_deck = map item_interp items
             in if concat all_interp_data_for_deck = [] then Inl EmptyReduction
                else
                 (let deck_min = Min (set (concat all_interp_data_for_deck));
                      deck_max = Max (set (concat all_interp_data_for_deck));
                      yl = deck_plot_ylim cfg deck_name deck_min deck_max
                  in case deck_window_envelope all_interp_data_for_deck time_fine
                            (fst (deck_zoom_plot_x_range cfg)) of
                       Inl e \<Rightarrow> Inl e
                     | Inr zoomed \<Rightarrow>
                        (case deck_window_envelope all_interp_data_for_deck time_fine
                                (fst (deck_last_orbit_plot_x_range cfg)) of
                           Inl e \<Rightarrow> Inl e
                         | Inr last_orbit \<Rightarrow>
                            Inr \<lparr>deck_printed = [''Processing Deck: '' @ deck_name @ ''...''] @ snd yl,
                                 deck_report = deck_header deck_name @ concat (map item_row items)
                                                 @ newline,
                                 deck_figures =
                                   [\<lparr>plot_kind = Deck_Full, plot_entity = deck_name,
                                     plot_curves = map (\<lambda>ys. (time_fine, ys)) all_interp_data_for_deck,
                                     plot_hlines = [], plot_ylim = fst yl\<rparr>,
                                    \<lparr>plot_kind = Deck_Zoomed, plot_entity = deck_name,
                                     plot_curves = window_curves (deck_zoom_plot_x_range cfg)
                                                     time_fine all_interp_data_for_deck,
                                     plot_hlines = [],
                                     plot_ylim = round_outward (fst zoomed) (snd zoomed)\<rparr>,
                                    \<lparr>plot_kind = Deck_Last_Orbit, plot_entity = deck_name,
                                     plot_curves = window_curves (deck_last_orbit_plot_x_range cfg)
                                                     time_fine all_interp_data_for_deck,
                                     plot_hlines = [],
                                     plot_ylim = round_outward (fst last_orbit) (snd last_orbit)\<rparr>]\<rparr>))))"

fun deck_loop ::
  "config \<Rightarrow> (string \<rightharpoonup> limits) \<Rightarrow> data_frame \<Rightarrow> real list \<Rightarrow> (string \<times> string list) list
     \<Rightarrow> error + deck_output list" where
  "deck_loop cfg limits_map data_df time_fine [] = Inr []"
| "deck_loop cfg limits_map data_df time_fine (deck # rest) =
     (case process_deck cfg limits_map data_df time_fine deck of
        Inl e \<Rightarrow> Inl e
      | Inr out \<Rightarrow>
         (case deck_loop cfg limits_map data_df time_fine rest of
            Inl e \<Rightarrow> Inl e
          | Inr outs \<Rightarrow> Inr (out # outs)))"

subsection \<open>The run (lines 112-122 and 174-457)\<close>

text \<open>
  Lines 113-114 and 122, 308: the output folder carries the time at which the script
  started, \<open>timestamp\<close>, the clock formatted as \<^verbatim>\<open>%Y-%m-%d_%H-%M-%S\<close>; the report file lies
  in its subfolder \<^verbatim>\<open>Report\<close> (\<^verbatim>\<open>os.path.join\<close>, with the separator of POSIX).
\<close>

definition main_output_folder :: "string \<Rightarrow> string" where
  "main_output_folder timestamp = ''Thermal_Analysis_Output_'' @ timestamp"

definition report_filepath :: "string \<Rightarrow> string" where
  "report_filepath timestamp = main_output_folder timestamp @ ''/Report/thermal_report.txt''"

text \<open>
  What a run that ends normally has printed, the text of the report file and the
  figures. An exception aborts the run, and the result is the error. The printed lines are
  the message of line 115 and everything printed from line 185 to the end of the script;
  line 115 and the last two lines carry the name of the output folder, and with it the
  time of the start. The messages of the configuration and loading part in between (lines
  133-177), which echo file names and counts, are not part of the model. The script reads
  the clock twice: \<open>timestamp\<close> at line 113 and \<open>now\<close> at line 313.
\<close>

record run_output =
  printed :: "string list"
  report_text :: string
  figures :: "plot list"

definition run ::
  "config \<Rightarrow> data_frame \<Rightarrow> (string \<rightharpoonup> limits) \<Rightarrow> string \<Rightarrow> string \<Rightarrow> error + run_output" where
  "run cfg data_df limits_map timestamp now =
     (let all_component_names = map fst (columns data_df);
          time_fine = time_fine_of (time_min data_df)
      in case (if generate_individual_plots cfg
               then (case individual_loop cfg data_df time_fine all_component_names of
                       Inl e \<Rightarrow> Inl e
                     | Inr (p, f) \<Rightarrow>
                        Inr ([newline @ ''--> Generating individual plots (This may be slow)...'']
                             @ p @ [''Finished generating individual plots.''], f))
               else Inr ([newline @ ''--> Skipping generation of individual plots for a faster run.''], []))
         of
           Inl e \<Rightarrow> Inl e
         | Inr (printed1, figures1) \<Rightarrow>
            (case deck_loop cfg limits_map data_df time_fine (deck_groups all_component_names) of
               Inl e \<Rightarrow> Inl e
             | Inr outs \<Rightarrow>
                Inr \<lparr>printed = [''--> Creating main output directory: '' @ main_output_folder timestamp]
                       @ printed1
                       @ [newline @ ''--> Grouping components and generating consolidated plots and report...'']
                       @ concat (map deck_printed outs)
                       @ [''Finished generating consolidated plots and report.'',
                          newline @ replicate 85 CHR ''='',
                          ''Processing complete.'',
                          ''Report saved in: '' @ report_filepath timestamp,
                          ''All output generated in folder: '' @ main_output_folder timestamp],
                     report_text = report_header now @ concat (map deck_report outs),
                     figures = figures1 @ concat (map deck_figures outs)\<rparr>))"

subsection \<open>The Y-axis policy as the specification words it\<close>



subsection \<open>Example inputs\<close>

text \<open>
  A limits row with the default bounds of the script (lines 158-159), a configuration,
  and a table with one component sampled at the minutes 0 and 10.
\<close>

definition lims0 :: limits where
  "lims0 = \<lparr>Acceptance_Min = -10, Acceptance_Max = 50, Design_Min = -15, Design_Max = 55\<rparr>"

definition cfg0 :: config where
  "cfg0 = \<lparr>generate_individual_plots = False, excluded_components = [],
     manual_ylimits = Map.empty,
     full_plot_y_range = Fixed (-20) 60, deck_plot_y_range = Fixed (-20) 60,
     zoom_plot_y_range = Fixed (-20) 60, deck_zoom_plot_y_range = Fixed (-20) 60,
     deck_last_orbit_plot_y_range = Fixed (-20) 60,
     zoom_plot_x_range = (0, 5), deck_zoom_plot_x_range = (0, 5),
     deck_last_orbit_plot_x_range = (0, 5)\<rparr>"

definition df0 :: data_frame where
  "df0 = \<lparr>time_min = [0, 10], columns = [(''PWR_Battery.T1'', [Some (-12), Some 45])]\<rparr>"

text \<open>
  A table in which the second component has a single valid sample, and a table whose
  rows are not in time order.
\<close>

definition df_sparse :: data_frame where
  "df_sparse = \<lparr>time_min = [0, 10],
     columns = [(''PWR_Battery.T1'', [Some (-12), Some 44]), (''PWR_Heater.T2'', [Some 20, None])]\<rparr>"

definition df_single :: data_frame where
  "df_single = \<lparr>time_min = [0, 10], columns = [(''PWR_Heater.T2'', [Some 20, None])]\<rparr>"

definition df_unsorted :: data_frame where
  "df_unsorted = \<lparr>time_min = [10, 0, 20],
     columns = [(''PWR_Battery.T1'', [Some 1, Some 2, Some 3])]\<rparr>"

text \<open>
  A table in which the component has no value in the first row, so that its own samples
  start at minute 10 while the table starts at minute 0.
\<close>

definition df_late :: data_frame where
  "df_late = \<lparr>time_min = [0, 10, 20],
     columns = [(''PWR_Battery.T1'', [None, Some (-5), Some 5])]\<rparr>"



section \<open>Properties\<close>

declare show_nat.simps [simp del]

subsection \<open>Evaluation helpers\<close>

lemma replicate_numeral: "replicate (numeral k) x = x # replicate (pred_numeral k) x"
  by (simp add: numeral_eq_Suc)

lemma format_f_examples:
  "format_f (Suc 0) (-12) = ''-12.0''"
  "format_f (Suc 0) 45 = ''45.0''"
  "format_f 0 (-10) = ''-10''"
  "format_f 0 50 = ''50''"
  "format_f 2 5 = ''5.00''"
  by (simp_all add: format_f_def round_half_even_def Let_def show_nat.simps)

lemma pchip_two_points_example:
  "pchip_interpolate [0, 10] [-12, 45] [0, 5, 10] = Inr [-12, 33 / 2, 45]"
  by (simp add: pchip_interpolate_def pchip_eval_def pchip_derivatives_def pchip_piece_def
      hermite_def np_diff_def Let_def power3_eq_cube power2_eq_square)

lemma pchip_interpolate_length:
  "pchip_interpolate xi yi x = Inr r \<Longrightarrow> length r = length x"
  by (auto simp: pchip_interpolate_def split: if_splits)

subsection \<open>Deck grouping\<close>

lemma find_map_Suc: "find P (map Suc xs) = map_option Suc (find (\<lambda>i. P (Suc i)) xs)"
  by (induction xs) auto

lemma first_occurrence_Cons:
  "first_occurrence marker (c # cs) =
     (if prefix marker (c # cs) then Some 0 else map_option Suc (first_occurrence marker cs))"
proof -
  have eq: "[0..<Suc (Suc (length cs))] = 0 # map Suc [0..<Suc (length cs)]"
    by (metis upt_conv_Cons map_Suc_upt zero_less_Suc)
  show ?thesis
    unfolding first_occurrence_def length_Cons eq
    by (simp add: find_map_Suc del: upt_Suc)
qed

lemma split_head_strip: "split_head marker s = strip_from_marker marker s"
proof (induction s)
  case Nil
  then show ?case
    by (cases marker) (simp_all add: strip_from_marker_def first_occurrence_def)
next
  case (Cons c cs)
  then show ?case
    by (simp add: strip_from_marker_def first_occurrence_Cons split: option.splits)
qed

lemma split_head_underscore: "split_head ''_'' s = takeWhile (\<lambda>c. c \<noteq> CHR ''_'') s"
  by (induction s) auto

lemma deck_prefix_spec: "deck_prefix_of c = spec_deck_name c"
  by (simp add: deck_prefix_of_def display_name_of_def spec_deck_name_def
      split_head_underscore split_head_strip[of "''.T''"])

lemma first_seen_snoc:
  "first_seen (ys @ [y]) = (if y \<in> set ys then first_seen ys else first_seen ys @ [y])"
  by (simp add: first_seen_def)

lemma distinct_first_seen: "distinct (first_seen xs)"
  by (simp add: first_seen_def)

lemma set_first_seen: "set (first_seen xs) = set xs"
  by (simp add: first_seen_def)

lemma deck_append_map:
  "distinct ks \<Longrightarrow>
   deck_append d c (map (\<lambda>k. (k, h k)) ks) =
     (if d \<in> set ks then map (\<lambda>k. (k, if k = d then h k @ [c] else h k)) ks
      else map (\<lambda>k. (k, h k)) ks @ [(d, [c])])"
  by (induction ks) auto

lemma deck_append_spec:
  "deck_append (spec_deck_name c) c (spec_grouping xs) = spec_grouping (xs @ [c])"
proof (cases "spec_deck_name c \<in> set (map spec_deck_name xs)")
  case True
  then show ?thesis
    unfolding spec_grouping_def
    by (simp add: deck_append_map distinct_first_seen set_first_seen first_seen_snoc)
next
  case False
  then have "\<forall>x\<in>set xs. spec_deck_name x \<noteq> spec_deck_name c"
    by (metis image_eqI set_map)
  then have "filter (\<lambda>c'. spec_deck_name c' = spec_deck_name c) xs = []"
    by (simp add: filter_empty_conv)
  with False show ?thesis
    unfolding spec_grouping_def
    by (auto simp add: deck_append_map distinct_first_seen set_first_seen first_seen_snoc)
qed

lemma fold_deck_append:
  "fold (\<lambda>c g. deck_append (deck_prefix_of c) c g) ys (spec_grouping xs) = spec_grouping (xs @ ys)"
  by (induction ys arbitrary: xs) (simp_all add: deck_prefix_spec deck_append_spec)

lemma spec_grouping_Nil: "spec_grouping [] = []"
  by (simp add: spec_grouping_def first_seen_def)

text \<open>
  C9. For every list of component identifiers, the grouping built by the loop is the
  grouping of the specification: the deck of an identifier is what remains before the
  first underscore after everything from the first \<^verbatim>\<open>.T\<close> marker has been stripped; the
  decks come in first-seen order and each deck lists its members in first-seen order. The
  three identifiers of the example give the decks PWR and THM, in that order.
\<close>

theorem deck_groups_first_seen:
  "deck_groups idents = spec_grouping idents \<and>
   deck_groups [''PWR_Battery.T1'', ''PWR_Heater.T2'', ''THM_Radiator.T1''] =
     [(''PWR'', [''PWR_Battery.T1'', ''PWR_Heater.T2'']), (''THM'', [''THM_Radiator.T1''])]"
proof
  show "deck_groups idents = spec_grouping idents"
    using fold_deck_append[of idents "[]"] by (simp add: deck_groups_def spec_grouping_Nil)
  show "deck_groups [''PWR_Battery.T1'', ''PWR_Heater.T2'', ''THM_Radiator.T1''] =
     [(''PWR'', [''PWR_Battery.T1'', ''PWR_Heater.T2'']), (''THM'', [''THM_Radiator.T1''])]"
    by (simp add: deck_groups_def deck_prefix_of_def display_name_of_def)
qed

subsection \<open>Compliance of a component with limits\<close>

lemma deck_component_SomeD:
  assumes "deck_component cfg limits_map data_df time_fine component_name = Inr (Some item)"
  shows "component_name \<notin> set (excluded_components cfg) \<and>
         (\<exists>col. map_of (columns data_df) component_name = Some col \<and>
            2 \<le> length (clean_deck (time_min data_df) col) \<and>
            pchip_interpolate (map fst (clean_deck (time_min data_df) col))
              (map snd (clean_deck (time_min data_df) col)) time_fine = Inr (item_interp item)) \<and>
         item_interp item \<noteq> [] \<and>
         item_row item =
           compliance_row (display_name_of component_name) (Min (set (item_interp item)))
             (Max (set (item_interp item))) (limits_map component_name)"
  using assms
  by (auto simp: deck_component_def Let_def split: if_splits option.splits sum.splits)

lemma deck_component_example:
  "deck_component cfg0 [''PWR_Battery.T1'' \<mapsto> lims0] df0 [0, 5, 10] ''PWR_Battery.T1'' =
     Inr (Some \<lparr>item_interp = [-12, 33 / 2, 45],
                item_row = report_row ''PWR Battery'' ''[-12.0 , 45.0  ]'' ''[-10   , 50    ]''
                             ''5.00'' ''FAIL''\<rparr>)"
  by (simp add: deck_component_def cfg0_def df0_def clean_deck_def dropna_def
      List.map_filter_simps pchip_two_points_example compliance_row_def lims0_def
      display_name_of_def hot_margin_of_def cold_margin_of_def status_of_def format_f_examples
      ljust_def replicate_numeral underscores_to_spaces_def Let_def)

text \<open>
  C1. A component that has a row in the limits table and is evaluated: its series has
  one value for every point of the fine grid, the simulated minimum and maximum are taken
  over that whole series, the hot margin is the acceptance maximum minus the simulated
  maximum, the cold margin is the simulated minimum minus the acceptance minimum, and the
  verdict written to the report is PASS exactly when both margins are at least zero and
  FAIL otherwise. For the limits (-10, 50) and the simulated range [-12, 45] the hot margin
  is 5, the cold margin is -2 and the verdict is FAIL.
\<close>

theorem compliance_margins_and_verdict:
  assumes "limits_map component_name = Some lims"
    and "deck_component cfg limits_map data_df time_fine component_name = Inr (Some item)"
  shows "(let sim_min = Min (set (item_interp item));
              sim_max = Max (set (item_interp item));
              hot_margin = Acceptance_Max lims - sim_max;
              cold_margin = sim_min - Acceptance_Min lims;
              verdict = (if 0 \<le> hot_margin \<and> 0 \<le> cold_margin then ''PASS'' else ''FAIL'')
          in length (item_interp item) = length time_fine \<and>
             hot_margin_of lims sim_max = hot_margin \<and>
             cold_margin_of lims sim_min = cold_margin \<and>
             status_of hot_margin cold_margin = verdict \<and>
             item_row item =
               report_row (underscores_to_spaces (display_name_of component_name))
                 (''['' @ ljust 6 (format_f 1 sim_min) @ '', '' @ ljust 6 (format_f 1 sim_max) @ '']'')
                 (''['' @ ljust 6 (format_f 0 (Acceptance_Min lims)) @ '', ''
                   @ ljust 6 (format_f 0 (Acceptance_Max lims)) @ '']'')
                 (format_f 2 hot_margin) verdict) \<and>
         hot_margin_of lims0 45 = 5 \<and> cold_margin_of lims0 (-12) = -2 \<and>
         status_of (hot_margin_of lims0 45) (cold_margin_of lims0 (-12)) = ''FAIL''"
proof -
  from deck_component_SomeD[OF assms(2)] obtain col where
    interp: "pchip_interpolate (map fst (clean_deck (time_min data_df) col))
               (map snd (clean_deck (time_min data_df) col)) time_fine = Inr (item_interp item)"
    and row: "item_row item =
           compliance_row (display_name_of component_name) (Min (set (item_interp item)))
             (Max (set (item_interp item))) (limits_map component_name)"
    by blast
  have len: "length (item_interp item) = length time_fine"
    using interp by (rule pchip_interpolate_length)
  have ex: "hot_margin_of lims0 45 = 5 \<and> cold_margin_of lims0 (-12) = -2 \<and>
         status_of (hot_margin_of lims0 45) (cold_margin_of lims0 (-12)) = ''FAIL''"
    by (simp add: hot_margin_of_def cold_margin_of_def status_of_def lims0_def)
  show ?thesis
    using len row ex assms(1)
    by (simp add: compliance_row_def hot_margin_of_def cold_margin_of_def status_of_def Let_def)
qed

theorem compliance_margins_and_verdict_witness:
  "[''PWR_Battery.T1'' \<mapsto> lims0] ''PWR_Battery.T1'' = Some lims0 \<and>
   deck_component cfg0 [''PWR_Battery.T1'' \<mapsto> lims0] df0 [0, 5, 10] ''PWR_Battery.T1'' =
     Inr (Some \<lparr>item_interp = [-12, 33 / 2, 45],
                item_row = report_row ''PWR Battery'' ''[-12.0 , 45.0  ]'' ''[-10   , 50    ]''
                             ''5.00'' ''FAIL''\<rparr>) \<and>
   hot_margin_of lims0 (Max (set [-12, 33 / 2, 45])) = 50 - 45 \<and>
   cold_margin_of lims0 (Min (set [-12, 33 / 2, 45])) = -12 - (-10) \<and>
   status_of (50 - 45) (-12 - (-10)) = ''FAIL''"
proof -
  have h1: "[''PWR_Battery.T1'' \<mapsto> lims0] ''PWR_Battery.T1'' = Some lims0"
    by simp
  note h2 = deck_component_example
  show ?thesis
    using compliance_margins_and_verdict[OF h1 h2] h1 h2
    by (simp add: Let_def lims0_def)
qed

subsection \<open>A component without limits\<close>

lemma no_limits_example:
  "deck_component cfg0 Map.empty df0 [0, 5, 10] ''PWR_Battery.T1'' =
     Inr (Some \<lparr>item_interp = [-12, 33 / 2, 45],
                item_row = report_row ''PWR Battery'' ''N/A'' ''N/A'' ''N/A'' ''NO LIMITS''\<rparr>)"
  by (simp add: deck_component_def cfg0_def df0_def clean_deck_def dropna_def
      List.map_filter_simps pchip_two_points_example compliance_row_def
      display_name_of_def underscores_to_spaces_def Let_def)

lemma report_row_status:
  assumes "report_row a b c d e = report_row a' b' c' d' e'"
    and "length e \<le> 10" and "length e' \<le> 10"
  shows "ljust 10 e = ljust 10 e'"
proof -
  let ?p = "\<lambda>a b c d. ljust 25 a @ '' | '' @ ljust 15 b @ '' | '' @ ljust 18 c
                 @ '' | '' @ ljust 15 d @ '' | ''"
  have "?p a b c d @ (ljust 10 e @ newline) = ?p a' b' c' d' @ (ljust 10 e' @ newline)"
    using assms(1) by (simp add: report_row_def)
  moreover have "length (ljust 10 e @ newline) = length (ljust 10 e' @ newline)"
    using assms(2,3) by (simp add: ljust_def)
  ultimately have "ljust 10 e @ newline = ljust 10 e' @ newline"
    by (metis append_eq_append_conv)
  then show ?thesis by simp
qed

lemma no_limits_line:
  "report_row a ''N/A'' ''N/A'' ''N/A'' ''NO LIMITS'' =
     ljust 25 a @ '' | N/A             | N/A                | N/A             | NO LIMITS ''
       @ newline"
  by (simp add: report_row_def ljust_def replicate_numeral)

lemma unlimited_line_differs:
  "report_row a ''N/A'' ''N/A'' ''N/A'' ''NO LIMITS'' \<noteq>
     compliance_row display_name sim_min sim_max (Some lims)"
proof
  assume eq: "report_row a ''N/A'' ''N/A'' ''N/A'' ''NO LIMITS'' =
     compliance_row display_name sim_min sim_max (Some lims)"
  let ?s = "status_of (hot_margin_of lims sim_max) (cold_margin_of lims sim_min)"
  have len: "length ?s \<le> 10"
    by (simp add: status_of_def)
  have "ljust 10 ''NO LIMITS'' = ljust 10 ?s"
    using eq unfolding compliance_row_def option.case Let_def
    by (rule report_row_status) (simp_all add: len)
  then show False
    by (simp add: ljust_def status_of_def replicate_numeral split: if_splits)
qed

text \<open>
  C3. A component that has no row in the limits table and is evaluated: the line written
  to the report is the display name, padded to 25 characters, followed by the literal
  fields N/A for the simulated range, N/A for the acceptance range, N/A for the margin
  and NO LIMITS for the status, each padded to its column. This line is not a line that
  the script writes for a component with limits, whatever its margins: no margin of
  zero and no verdict PASS or FAIL appears in it.
\<close>

theorem no_limits_row:
  assumes "limits_map component_name = None"
    and "deck_component cfg limits_map data_df time_fine component_name = Inr (Some item)"
  shows "item_row item =
           ljust 25 (underscores_to_spaces (display_name_of component_name))
             @ '' | N/A             | N/A                | N/A             | NO LIMITS ''
             @ newline \<and>
         (\<forall>display_name sim_min sim_max lims.
            item_row item \<noteq> compliance_row display_name sim_min sim_max (Some lims))"
proof -
  have "item_row item =
           compliance_row (display_name_of component_name) (Min (set (item_interp item)))
             (Max (set (item_interp item))) (limits_map component_name)"
    using deck_component_SomeD[OF assms(2)] by blast
  then have row: "item_row item =
      report_row (underscores_to_spaces (display_name_of component_name))
        ''N/A'' ''N/A'' ''N/A'' ''NO LIMITS''"
    using assms(1) by (simp add: compliance_row_def)
  show ?thesis
    unfolding row using unlimited_line_differs by (simp add: no_limits_line)
qed

theorem no_limits_row_witness:
  "deck_component cfg0 Map.empty df0 [0, 5, 10] ''PWR_Battery.T1'' =
     Inr (Some \<lparr>item_interp = [-12, 33 / 2, 45],
                item_row = ''PWR Battery               | N/A             | N/A                | N/A             | NO LIMITS '' @ newline\<rparr>) \<and>
   ''PWR Battery               | N/A             | N/A                | N/A             | NO LIMITS '' @ newline \<noteq>
     compliance_row ''PWR_Battery'' (-12) 45 (Some lims0)"
proof -
  have h1: "(Map.empty :: string \<rightharpoonup> limits) ''PWR_Battery.T1'' = None"
    by simp
  have line: "report_row ''PWR Battery'' ''N/A'' ''N/A'' ''N/A'' ''NO LIMITS'' =
      ''PWR Battery               | N/A             | N/A                | N/A             | NO LIMITS '' @ newline"
    by (simp add: no_limits_line ljust_def replicate_numeral)
  have h2: "deck_component cfg0 Map.empty df0 [0, 5, 10] ''PWR_Battery.T1'' =
     Inr (Some \<lparr>item_interp = [-12, 33 / 2, 45],
                item_row = ''PWR Battery               | N/A             | N/A                | N/A             | NO LIMITS '' @ newline\<rparr>)"
    using no_limits_example by (simp only: line)
  show ?thesis
    using no_limits_row[OF h1 h2] h2 by simp
qed

subsection \<open>A deck without a contributing component\<close>

lemma deck_components_all_skipped:
  assumes "\<forall>c\<in>set component_list.
             c \<in> set (excluded_components cfg) \<or>
             (\<exists>col. map_of (columns data_df) c = Some col \<and>
                    length (clean_deck (time_min data_df) col) < 2)"
  shows "deck_components cfg limits_map data_df time_fine component_list = Inr []"
  using assms
proof (induction component_list)
  case Nil
  then show ?case by simp
next
  case (Cons c cs)
  then have "deck_component cfg limits_map data_df time_fine c = Inr None"
    by (auto simp: deck_component_def Let_def)
  with Cons show ?case by simp
qed

lemma deck_loop_aborts:
  "deck \<in> set decks \<Longrightarrow> process_deck cfg limits_map data_df time_fine deck = Inl e \<Longrightarrow>
   \<exists>e'. deck_loop cfg limits_map data_df time_fine decks = Inl e'"
proof (induction decks)
  case Nil
  then show ?case by simp
next
  case (Cons d ds)
  show ?case
  proof (cases "process_deck cfg limits_map data_df time_fine d")
    case (Inl a)
    then show ?thesis by simp
  next
    case (Inr out)
    with Cons.prems have "deck \<in> set ds" by auto
    from Cons.IH[OF this Cons.prems(2)] Inr show ?thesis by auto
  qed
qed

lemma run_aborts:
  assumes "deck_loop cfg limits_map data_df (time_fine_of (time_min data_df))
             (deck_groups (map fst (columns data_df))) = Inl e"
  shows "\<exists>e'. run cfg data_df limits_map timestamp now = Inl e'"
  using assms by (auto simp: run_def Let_def split: sum.splits prod.splits)

text \<open>
  C10. When every member of a deck is on the exclusion list or has fewer than two valid
  samples after cleaning, the deck's envelope is the minimum of an empty collection: the
  deck raises the error of an empty reduction, and a run that has this deck among its
  groups aborts with an error.
\<close>

theorem empty_deck_aborts:
  assumes "\<forall>c\<in>set component_list.
             c \<in> set (excluded_components cfg) \<or>
             (\<exists>col. map_of (columns data_df) c = Some col \<and>
                    length (clean_deck (time_min data_df) col) < 2)"
  shows "process_deck cfg limits_map data_df time_fine (deck_name, component_list) =
           Inl EmptyReduction \<and>
         ((deck_name, component_list) \<in> set (deck_groups (map fst (columns data_df))) \<longrightarrow>
            (\<exists>e. run cfg data_df limits_map timestamp now = Inl e))"
proof -
  have fail: "process_deck cfg limits_map data_df tf (deck_name, component_list) =
           Inl EmptyReduction" for tf
    using deck_components_all_skipped[OF assms] by (simp add: process_deck_def)
  show ?thesis
  proof (intro conjI impI)
    show "process_deck cfg limits_map data_df time_fine (deck_name, component_list) =
           Inl EmptyReduction"
      by (rule fail)
  next
    assume "(deck_name, component_list) \<in> set (deck_groups (map fst (columns data_df)))"
    from deck_loop_aborts[OF this fail] obtain e' where
      "deck_loop cfg limits_map data_df (time_fine_of (time_min data_df))
             (deck_groups (map fst (columns data_df))) = Inl e'"
      by blast
    then show "\<exists>e. run cfg data_df limits_map timestamp now = Inl e"
      by (rule run_aborts)
  qed
qed

theorem empty_deck_aborts_witness:
  "(''PWR'', [''PWR_Heater.T2'']) \<in> set (deck_groups (map fst (columns df_single))) \<and>
   process_deck cfg0 Map.empty df_single (time_fine_of (time_min df_single))
     (''PWR'', [''PWR_Heater.T2'']) = Inl EmptyReduction \<and>
   (\<exists>e. run cfg0 df_single Map.empty ''2024-05-01_12-00-00'' ''2024-05-01 12:00:00'' = Inl e)"
proof -
  have h1: "\<forall>c\<in>set [''PWR_Heater.T2''].
      c \<in> set (excluded_components cfg0) \<or>
      (\<exists>col. map_of (columns df_single) c = Some col \<and>
             length (clean_deck (time_min df_single) col) < 2)"
    by (simp add: df_single_def clean_deck_def dropna_def List.map_filter_simps)
  have h2: "(''PWR'', [''PWR_Heater.T2'']) \<in> set (deck_groups (map fst (columns df_single)))"
    by (simp add: df_single_def deck_groups_def deck_prefix_of_def display_name_of_def)
  show ?thesis
    using empty_deck_aborts[OF h1, where limits_map = Map.empty
        and time_fine = "time_fine_of (time_min df_single)" and deck_name = "''PWR''"
        and timestamp = "''2024-05-01_12-00-00''" and now = "''2024-05-01 12:00:00''"] h2
    by blast
qed

subsection \<open>The fine grid\<close>

lemma length_linspace: "length (linspace a b n) = n"
  by (simp add: linspace_def)

lemma linspace_nth: "i < n \<Longrightarrow> linspace a b n ! i = a + real i * ((b - a) / real (n - 1))"
  by (simp add: linspace_def)

lemma linspace_bounds:
  assumes "a \<le> b" and "t \<in> set (linspace a b n)"
  shows "a \<le> t \<and> t \<le> b"
proof -
  from assms(2) obtain i where i: "i < n" and t: "t = a + real i * ((b - a) / real (n - 1))"
    by (auto simp: linspace_def)
  define X where "X = real i * ((b - a) / real (n - 1))"
  show ?thesis
  proof (cases "n = 1")
    case True
    with i t show ?thesis using assms(1) by simp
  next
    case False
    with i have n: "0 < real (n - 1)" and le: "real i \<le> real (n - 1)" by auto
    have "0 \<le> X"
      unfolding X_def using assms(1) n by simp
    moreover have "X \<le> b - a"
    proof -
      have "X \<le> real (n - 1) * ((b - a) / real (n - 1))"
        unfolding X_def using le assms(1) n by (intro mult_right_mono) auto
      also have "\<dots> = b - a"
        using n by simp
      finally show ?thesis .
    qed
    moreover have "t = a + X"
      unfolding X_def by (rule t)
    ultimately show ?thesis by linarith
  qed
qed

lemma time_fine_of_length: "ts \<noteq> [] \<Longrightarrow> length (time_fine_of ts) = 5000"
  by (simp add: time_fine_of_def length_linspace num_interp_points_def)

lemma time_fine_of_first: "ts \<noteq> [] \<Longrightarrow> time_fine_of ts ! 0 = Min (set ts)"
  by (simp add: time_fine_of_def linspace_nth num_interp_points_def)

lemma linspace_last: "1 < n \<Longrightarrow> linspace a b n ! (n - 1) = b"
proof -
  assume n: "1 < n"
  then have "real (n - 1) * ((b - a) / real (n - 1)) = b - a"
    by simp
  with n show ?thesis
    by (simp add: linspace_nth)
qed

lemma time_fine_of_last: "ts \<noteq> [] \<Longrightarrow> time_fine_of ts ! 4999 = Max (set ts)"
  using linspace_last[of 5000 "Min (set ts)" "Max (set ts)"]
  by (simp add: time_fine_of_def num_interp_points_def)

lemma time_fine_of_bounds:
  assumes "t \<in> set (time_fine_of ts)"
  shows "Min (set ts) \<le> t \<and> t \<le> Max (set ts)"
proof -
  from assms have ne: "ts \<noteq> []"
    by (auto simp: time_fine_of_def split: if_splits)
  then have "Min (set ts) \<le> Max (set ts)"
    by (simp add: Min_le_iff)
  moreover have "t \<in> set (linspace (Min (set ts)) (Max (set ts)) num_interp_points)"
    using assms ne by (simp add: time_fine_of_def)
  ultimately show ?thesis
    by (rule linspace_bounds)
qed

text \<open>A series that does not decrease along the grid has its extremes at the two ends.\<close>

lemma time_fine_of_Min_Max:
  assumes ne: "ts \<noteq> []" and mono: "\<And>s t. s \<le> t \<Longrightarrow> f s \<le> f t"
  shows "Min (set (map f (time_fine_of ts))) = f (Min (set ts))"
    and "Max (set (map f (time_fine_of ts))) = f (Max (set ts))"
proof -
  have first: "Min (set ts) \<in> set (time_fine_of ts)"
    using time_fine_of_first[OF ne] time_fine_of_length[OF ne]
    by (metis nth_mem zero_less_numeral)
  have last: "Max (set ts) \<in> set (time_fine_of ts)"
  proof -
    have "(4999::nat) < length (time_fine_of ts)"
      using time_fine_of_length[OF ne] by simp
    then show ?thesis
      using time_fine_of_last[OF ne] by (metis nth_mem)
  qed
  show "Min (set (map f (time_fine_of ts))) = f (Min (set ts))"
  proof (rule Min_eqI)
    show "finite (set (map f (time_fine_of ts)))" by simp
    show "f (Min (set ts)) \<le> y" if "y \<in> set (map f (time_fine_of ts))" for y
      using that time_fine_of_bounds mono by auto
    show "f (Min (set ts)) \<in> set (map f (time_fine_of ts))"
      using first by simp
  qed
  show "Max (set (map f (time_fine_of ts))) = f (Max (set ts))"
  proof (rule Max_eqI)
    show "finite (set (map f (time_fine_of ts)))" by simp
    show "y \<le> f (Max (set ts))" if "y \<in> set (map f (time_fine_of ts))" for y
      using that time_fine_of_bounds mono by auto
    show "f (Max (set ts)) \<in> set (map f (time_fine_of ts))"
      using last by simp
  qed
qed

subsection \<open>Interpolation through two points\<close>

lemma hermite_line:
  fixes u :: real
  shows "(2 * u ^ 3 - 3 * u ^ 2 + 1) * y0 + (u ^ 3 - 2 * u ^ 2 + u) * (y1 - y0)
         + (3 * u ^ 2 - 2 * u ^ 3) * y1 + (u ^ 3 - u ^ 2) * (y1 - y0) = y0 + u * (y1 - y0)"
  by (simp add: algebra_simps)

lemma pchip_two_points:
  assumes "x0 < x1"
  shows "pchip_interpolate [x0, x1] [y0, y1] tf =
           Inr (map (\<lambda>t. y0 + (y1 - y0) / (x1 - x0) * (t - x0)) tf)"
proof -
  have piece: "pchip_piece [x0, x1] t = 0" for t
    by (simp add: pchip_piece_def)
  have dk: "pchip_derivatives [x0, x1] [y0, y1] = [(y1 - y0) / (x1 - x0), (y1 - y0) / (x1 - x0)]"
    by (simp add: pchip_derivatives_def np_diff_def Let_def)
  have h: "x1 - x0 \<noteq> 0" using assms by simp
  have hm: "c * (x1 - x0) * ((y1 - y0) / (x1 - x0)) = c * (y1 - y0)" for c
    using h by simp
  have "pchip_eval [x0, x1] [y0, y1] (pchip_derivatives [x0, x1] [y0, y1]) t =
          y0 + (y1 - y0) / (x1 - x0) * (t - x0)" for t
  proof -
    have "pchip_eval [x0, x1] [y0, y1] (pchip_derivatives [x0, x1] [y0, y1]) t =
            y0 + (t - x0) / (x1 - x0) * (y1 - y0)"
      unfolding dk pchip_eval_def piece Let_def hermite_def
      by (simp only: nth_Cons_0 nth_Cons_Suc add_0 One_nat_def hm hermite_line)
    then show ?thesis by simp
  qed
  then show ?thesis
    using assms by (simp add: pchip_interpolate_def)
qed

lemma deck_component_two_samples:
  assumes col: "map_of (columns data_df) c = Some col"
    and clean: "clean_deck (time_min data_df) col = [(x0, y0), (x1, y1)]"
    and lt: "x0 < x1"
    and incl: "c \<notin> set (excluded_components cfg)"
    and grid: "tf \<noteq> []"
    and g: "g = (\<lambda>t. y0 + (y1 - y0) / (x1 - x0) * (t - x0))"
  shows "deck_component cfg limits_map data_df tf c =
           Inr (Some \<lparr>item_interp = map g tf,
                      item_row = compliance_row (display_name_of c) (Min (set (map g tf)))
                                   (Max (set (map g tf))) (limits_map c)\<rparr>)"
  unfolding deck_component_def g
  using incl grid lt
  by (simp add: col clean pchip_two_points Let_def del: set_map)

lemma format_f_examples2:
  "format_f (Suc 0) 44 = ''44.0''"
  "format_f 2 6 = ''6.00''"
  "format_f (Suc 0) (-15) = ''-15.0''"
  "format_f (Suc 0) 5 = ''5.0''"
  "format_f 2 45 = ''45.00''"
  by (simp_all add: format_f_def round_half_even_def Let_def show_nat.simps)

lemma compliance_row_examples:
  "compliance_row ''PWR_Battery'' (-12) 44 (Some lims0) =
     report_row ''PWR Battery'' ''[-12.0 , 44.0  ]'' ''[-10   , 50    ]'' ''6.00'' ''FAIL''"
  "compliance_row ''PWR_Battery'' (-15) 5 (Some lims0) =
     report_row ''PWR Battery'' ''[-15.0 , 5.0   ]'' ''[-10   , 50    ]'' ''45.00'' ''FAIL''"
  by (simp_all add: compliance_row_def lims0_def hot_margin_of_def cold_margin_of_def
      status_of_def format_f_examples format_f_examples2
      ljust_def replicate_numeral underscores_to_spaces_def Let_def)

subsection \<open>The resampled series\<close>

lemma pchip_interpolate_InrD:
  "pchip_interpolate xi yi x = Inr r \<Longrightarrow> r = map (pchip_eval xi yi (pchip_derivatives xi yi)) x"
  by (auto simp: pchip_interpolate_def split: if_splits)

lemma pchip_eval_before_first:
  assumes "xi \<noteq> []" and "t < hd xi"
  shows "pchip_eval xi yi dk t =
           hermite (xi ! 0) (xi ! 1) (yi ! 0) (yi ! 1) (dk ! 0) (dk ! 1) t"
proof -
  from assms have "takeWhile (\<lambda>a. a \<le> t) xi = []"
    by (cases xi) auto
  then have "pchip_piece xi t = 0"
    by (simp add: pchip_piece_def)
  then show ?thesis
    by (simp add: pchip_eval_def)
qed

lemma individual_plots_for_InrD:
  assumes "individual_plots_for cfg data_df tf c = Inr (p, figs)"
  shows "\<exists>col. map_of (columns data_df) c = Some col \<and>
     (length (clean_individual (time_min data_df) col) < 2 \<and> p = [skipping_message c] \<and> figs = [] \<or>
      (\<exists>interp zs.
          2 \<le> length (clean_individual (time_min data_df) col) \<and>
          pchip_interpolate (map fst (clean_individual (time_min data_df) col))
            (map snd (clean_individual (time_min data_df) col)) tf = Inr interp \<and>
          interp \<noteq> [] \<and>
          p = snd (full_plot_ylim cfg c (Min (set interp)) (Max (set interp))) \<and>
          figs = \<lparr>plot_kind = Full, plot_entity = c, plot_curves = [(tf, interp)],
                   plot_hlines = [],
                   plot_ylim = fst (full_plot_ylim cfg c (Min (set interp)) (Max (set interp)))\<rparr> # zs \<and>
          (zs = [] \<or>
           (\<exists>hl. masked (zoom_plot_x_range cfg) tf interp \<noteq> [] \<and>
              zs = [\<lparr>plot_kind = Zoomed, plot_entity = c,
                      plot_curves = [(map fst (masked (zoom_plot_x_range cfg) tf interp),
                                      map snd (masked (zoom_plot_x_range cfg) tf interp))],
                      plot_hlines = hl,
                      plot_ylim = round_outward
                        (Min (set (map snd (masked (zoom_plot_x_range cfg) tf interp))))
                        (Max (set (map snd (masked (zoom_plot_x_range cfg) tf interp))))\<rparr>]))))"
proof -
  from assms obtain col where col: "map_of (columns data_df) c = Some col"
    by (auto simp: individual_plots_for_def split: option.splits)
  show ?thesis
  proof (cases "length (clean_individual (time_min data_df) col) < 2")
    case True
    with assms col show ?thesis
      by (simp add: individual_plots_for_def Let_def)
  next
    case False
    with assms col obtain interp where
      interp: "pchip_interpolate (map fst (clean_individual (time_min data_df) col))
            (map snd (clean_individual (time_min data_df) col)) tf = Inr interp"
      by (auto simp: individual_plots_for_def Let_def split: sum.splits)
    with assms col False have ne: "interp \<noteq> []"
      by (auto simp: individual_plots_for_def Let_def split: if_splits)
    from assms col False interp ne show ?thesis
      by (simp add: individual_plots_for_def Let_def del: set_map split: if_splits) blast+
  qed
qed

lemma late_component:
  "deck_component cfg0 [''PWR_Battery.T1'' \<mapsto> lims0] df_late (time_fine_of (time_min df_late))
       ''PWR_Battery.T1'' =
     Inr (Some \<lparr>item_interp = map (\<lambda>t. t - 15) (time_fine_of (time_min df_late)),
                item_row = report_row ''PWR Battery'' ''[-15.0 , 5.0   ]'' ''[-10   , 50    ]''
                             ''45.00'' ''FAIL''\<rparr>) \<and>
   clean_deck (time_min df_late) [None, Some (-5), Some 5] = [(10, -5), (20, 5)] \<and>
   time_fine_of (time_min df_late) ! 0 = 0 \<and>
   map (\<lambda>t. t - 15) (time_fine_of (time_min df_late)) ! 0 = -15"
proof -
  let ?tf = "time_fine_of (time_min df_late)"
  let ?g = "\<lambda>t::real. t - 15"
  have ne: "time_min df_late \<noteq> []"
    by (simp add: df_late_def)
  have clean: "clean_deck (time_min df_late) [None, Some (-5), Some 5] = [(10, -5), (20, 5)]"
    by (simp add: df_late_def clean_deck_def dropna_def List.map_filter_simps)
  have col: "map_of (columns df_late) ''PWR_Battery.T1'' = Some [None, Some (-5), Some 5]"
    by (simp add: df_late_def)
  have len: "length ?tf = 5000"
    by (rule time_fine_of_length[OF ne])
  have t0: "?tf ! 0 = 0"
    using time_fine_of_first[OF ne] by (simp add: df_late_def)
  have first: "map ?g ?tf ! 0 = -15"
    using len t0 by (simp add: nth_map)
  have mn: "Min (set (map ?g ?tf)) = -15" and mx: "Max (set (map ?g ?tf)) = 5"
    using time_fine_of_Min_Max[OF ne, of ?g] by (simp_all add: df_late_def)
  have dn: "display_name_of ''PWR_Battery.T1'' = ''PWR_Battery''"
    by (simp add: display_name_of_def)
  have "deck_component cfg0 [''PWR_Battery.T1'' \<mapsto> lims0] df_late ?tf ''PWR_Battery.T1'' =
     Inr (Some \<lparr>item_interp = map ?g ?tf,
                item_row = compliance_row (display_name_of ''PWR_Battery.T1'')
                  (Min (set (map ?g ?tf))) (Max (set (map ?g ?tf)))
                  ([''PWR_Battery.T1'' \<mapsto> lims0] ''PWR_Battery.T1'')\<rparr>)"
  proof (rule deck_component_two_samples[OF col clean])
    show "(10::real) < 20" by simp
    show "''PWR_Battery.T1'' \<notin> set (excluded_components cfg0)" by (simp add: cfg0_def)
    show "?tf \<noteq> []" using len by auto
    show "?g = (\<lambda>t. - 5 + (5 - - 5) / (20 - 10) * (t - 10))" by (simp add: fun_eq_iff)
  qed
  then have "deck_component cfg0 [''PWR_Battery.T1'' \<mapsto> lims0] df_late ?tf ''PWR_Battery.T1'' =
     Inr (Some \<lparr>item_interp = map ?g ?tf,
                item_row = report_row ''PWR Battery'' ''[-15.0 , 5.0   ]'' ''[-10   , 50    ]''
                             ''45.00'' ''FAIL''\<rparr>)"
    unfolding mn mx dn by (simp add: compliance_row_examples)
  with clean first t0 show ?thesis by simp
qed

lemma individual_example:
  "individual_plots_for cfg0 df0 [0, 5, 10] ''PWR_Battery.T1'' =
     Inr ([], [\<lparr>plot_kind = Full, plot_entity = ''PWR_Battery.T1'',
                 plot_curves = [([0, 5, 10], [- 12, 33 / 2, 45])], plot_hlines = [],
                 plot_ylim = (- 20, 60)\<rparr>,
               \<lparr>plot_kind = Zoomed, plot_entity = ''PWR_Battery.T1'',
                 plot_curves = [([0, 5], [- 12, 33 / 2])], plot_hlines = [- 12, - 12],
                 plot_ylim = (- 15, 20)\<rparr>])"
  by (simp add: individual_plots_for_def cfg0_def df0_def clean_individual_def dropna_def
      List.map_filter_simps pchip_two_points_example full_plot_ylim_def masked_def
      round_outward_def Let_def)

text \<open>
  C2, as the specification states it, fails. The component of \<^const>\<open>df_late\<close> has its
  samples at the minutes 10 and 20, with the values -5 and 5, and limits [-10, 50]; the
  grid of the run starts at minute 0. The series has a value at that grid point, -15,
  continued from the line through the two samples, and the report gives the simulated
  range [-15, 5] and the verdict FAIL.
\<close>

theorem resampled_outside_raw_range:
  "deck_component cfg0 [''PWR_Battery.T1'' \<mapsto> lims0] df_late (time_fine_of (time_min df_late))
       ''PWR_Battery.T1'' =
     Inr (Some \<lparr>item_interp = map (\<lambda>t. t - 15) (time_fine_of (time_min df_late)),
                item_row = report_row ''PWR Battery'' ''[-15.0 , 5.0   ]'' ''[-10   , 50    ]''
                             ''45.00'' ''FAIL''\<rparr>) \<and>
   clean_deck (time_min df_late) [None, Some (-5), Some 5] = [(10, -5), (20, 5)] \<and>
   time_fine_of (time_min df_late) ! 0 = 0 \<and>
   map (\<lambda>t. t - 15) (time_fine_of (time_min df_late)) ! 0 = -15"
  by (rule late_component)

text \<open>
  C2, amended. On both paths the resampled series has one value for every point of the
  shared fine grid: the interpolant of the component's cleaned samples evaluated at that
  point, whether or not the point lies within the component's own time range. The
  minimum and maximum used for compliance are taken over the whole series. Before the
  first sample the interpolant is its first cubic piece, continued.
\<close>

theorem resampled_on_whole_grid:
  "(deck_component cfg limits_map data_df time_fine component_name = Inr (Some item) \<longrightarrow>
      (\<exists>col. map_of (columns data_df) component_name = Some col \<and>
         (let xi = map fst (clean_deck (time_min data_df) col);
              yi = map snd (clean_deck (time_min data_df) col)
          in item_interp item = map (pchip_eval xi yi (pchip_derivatives xi yi)) time_fine)) \<and>
      length (item_interp item) = length time_fine \<and>
      item_row item =
        compliance_row (display_name_of component_name) (Min (set (item_interp item)))
          (Max (set (item_interp item))) (limits_map component_name)) \<and>
   (individual_plots_for cfg data_df time_fine component_name = Inr (p, fig # figs) \<longrightarrow>
      (\<exists>col. map_of (columns data_df) component_name = Some col \<and>
         (let xi = map fst (clean_individual (time_min data_df) col);
              yi = map snd (clean_individual (time_min data_df) col)
          in plot_curves fig =
               [(time_fine, map (pchip_eval xi yi (pchip_derivatives xi yi)) time_fine)]))) \<and>
   (xi \<noteq> [] \<and> t < hd xi \<longrightarrow>
      pchip_eval xi yi dk t = hermite (xi ! 0) (xi ! 1) (yi ! 0) (yi ! 1) (dk ! 0) (dk ! 1) t)"
proof (intro conjI impI)
  assume a: "deck_component cfg limits_map data_df time_fine component_name = Inr (Some item)"
  from deck_component_SomeD[OF a] obtain col where
    col: "map_of (columns data_df) component_name = Some col"
    and interp: "pchip_interpolate (map fst (clean_deck (time_min data_df) col))
              (map snd (clean_deck (time_min data_df) col)) time_fine = Inr (item_interp item)"
    by blast
  show "\<exists>col. map_of (columns data_df) component_name = Some col \<and>
         (let xi = map fst (clean_deck (time_min data_df) col);
              yi = map snd (clean_deck (time_min data_df) col)
          in item_interp item = map (pchip_eval xi yi (pchip_derivatives xi yi)) time_fine)"
    using col pchip_interpolate_InrD[OF interp] by (auto simp: Let_def)
  show "length (item_interp item) = length time_fine"
    using interp by (rule pchip_interpolate_length)
  show "item_row item =
        compliance_row (display_name_of component_name) (Min (set (item_interp item)))
          (Max (set (item_interp item))) (limits_map component_name)"
    using deck_component_SomeD[OF a] by blast
next
  assume a: "individual_plots_for cfg data_df time_fine component_name = Inr (p, fig # figs)"
  from individual_plots_for_InrD[OF a] obtain col interp where
    col: "map_of (columns data_df) component_name = Some col"
    and interp: "pchip_interpolate (map fst (clean_individual (time_min data_df) col))
            (map snd (clean_individual (time_min data_df) col)) time_fine = Inr interp"
    and fig: "plot_curves fig = [(time_fine, interp)]"
    by auto
  show "\<exists>col. map_of (columns data_df) component_name = Some col \<and>
         (let xi = map fst (clean_individual (time_min data_df) col);
              yi = map snd (clean_individual (time_min data_df) col)
          in plot_curves fig =
               [(time_fine, map (pchip_eval xi yi (pchip_derivatives xi yi)) time_fine)])"
    using col fig pchip_interpolate_InrD[OF interp] by (auto simp: Let_def)
next
  assume "xi \<noteq> [] \<and> t < hd xi"
  then show "pchip_eval xi yi dk t =
      hermite (xi ! 0) (xi ! 1) (yi ! 0) (yi ! 1) (dk ! 0) (dk ! 1) t"
    by (simp add: pchip_eval_before_first)
qed

theorem resampled_on_whole_grid_witness:
  "length (map (\<lambda>t. t - 15) (time_fine_of (time_min df_late))) =
     length (time_fine_of (time_min df_late)) \<and>
   (\<exists>col. map_of (columns df0) ''PWR_Battery.T1'' = Some col \<and>
      (let xi = map fst (clean_individual (time_min df0) col);
           yi = map snd (clean_individual (time_min df0) col)
       in [([0, 5, 10], [- 12, 33 / 2, 45])] =
            [([0, 5, 10], map (pchip_eval xi yi (pchip_derivatives xi yi)) [0, 5, 10])])) \<and>
   pchip_eval [10, 20] [-5, 5] [1, 1] 0 = hermite 10 20 (-5) 5 1 1 0"
proof -
  have h1: "deck_component cfg0 [''PWR_Battery.T1'' \<mapsto> lims0] df_late
       (time_fine_of (time_min df_late)) ''PWR_Battery.T1'' =
     Inr (Some \<lparr>item_interp = map (\<lambda>t. t - 15) (time_fine_of (time_min df_late)),
                item_row = report_row ''PWR Battery'' ''[-15.0 , 5.0   ]'' ''[-10   , 50    ]''
                             ''45.00'' ''FAIL''\<rparr>)"
    using late_component by blast
  note h2 = individual_example
  have h3: "[10, 20 :: real] \<noteq> [] \<and> (0 :: real) < hd [10, 20]"
    by simp
  show ?thesis
    using resampled_on_whole_grid[where cfg = cfg0
        and limits_map = "[''PWR_Battery.T1'' \<mapsto> lims0]" and data_df = df_late
        and time_fine = "time_fine_of (time_min df_late)"
        and component_name = "''PWR_Battery.T1''"
        and item = "\<lparr>item_interp = map (\<lambda>t. t - 15) (time_fine_of (time_min df_late)),
                item_row = report_row ''PWR Battery'' ''[-15.0 , 5.0   ]'' ''[-10   , 50    ]''
                             ''45.00'' ''FAIL''\<rparr>"
        and xi = "[10, 20]" and t = 0 and yi = "[-5, 5]" and dk = "[1, 1]"]
      resampled_on_whole_grid[where cfg = cfg0 and data_df = df0 and time_fine = "[0, 5, 10]"
        and component_name = "''PWR_Battery.T1''" and p = "[]"
        and fig = "\<lparr>plot_kind = Full, plot_entity = ''PWR_Battery.T1'',
                 plot_curves = [([0, 5, 10], [- 12, 33 / 2, 45])], plot_hlines = [],
                 plot_ylim = (- 20, 60)\<rparr>"
        and figs = "[\<lparr>plot_kind = Zoomed, plot_entity = ''PWR_Battery.T1'',
                 plot_curves = [([0, 5], [- 12, 33 / 2])], plot_hlines = [- 12, - 12],
                 plot_ylim = (- 15, 20)\<rparr>]"]
      h1 h2 h3
    by simp
qed

subsection \<open>A deck with one contributing component\<close>

lemma window_start_index_first:
  assumes "tf \<noteq> []" and "t0 \<le> tf ! 0"
  shows "window_start_index tf t0 = Inr 0"
proof -
  from assms(1) have "[0..<length tf] = 0 # [1..<length tf]"
    by (simp add: upt_conv_Cons)
  with assms(2) show ?thesis
    by (simp add: window_start_index_def)
qed

lemma deck_window_envelope_whole:
  assumes "tf \<noteq> []" and "t0 \<le> tf ! 0" and "concat all_interp \<noteq> []"
  shows "deck_window_envelope all_interp tf t0 =
           Inr (Min (set (concat all_interp)), Max (set (concat all_interp)))"
  unfolding deck_window_envelope_def window_start_index_first[OF assms(1,2)]
  using assms(3) by (simp add: Let_def del: set_concat concat_eq_Nil_conv)

lemma process_deck_single:
  assumes items: "deck_components cfg limits_map data_df tf cs = Inr [item]"
    and ne: "item_interp item \<noteq> []" and grid: "tf \<noteq> []"
    and zoom: "fst (deck_zoom_plot_x_range cfg) \<le> tf ! 0"
    and last: "fst (deck_last_orbit_plot_x_range cfg) \<le> tf ! 0"
    and mn: "Min (set (item_interp item)) = lo" and mx: "Max (set (item_interp item)) = hi"
  shows "process_deck cfg limits_map data_df tf (d, cs) =
     Inr \<lparr>deck_printed = [''Processing Deck: '' @ d @ ''...''] @ snd (deck_plot_ylim cfg d lo hi),
          deck_report = deck_header d @ item_row item @ newline,
          deck_figures =
            [\<lparr>plot_kind = Deck_Full, plot_entity = d,
              plot_curves = [(tf, item_interp item)], plot_hlines = [],
              plot_ylim = fst (deck_plot_ylim cfg d lo hi)\<rparr>,
             \<lparr>plot_kind = Deck_Zoomed, plot_entity = d,
              plot_curves = window_curves (deck_zoom_plot_x_range cfg) tf [item_interp item],
              plot_hlines = [], plot_ylim = round_outward lo hi\<rparr>,
             \<lparr>plot_kind = Deck_Last_Orbit, plot_entity = d,
              plot_curves = window_curves (deck_last_orbit_plot_x_range cfg) tf [item_interp item],
              plot_hlines = [], plot_ylim = round_outward lo hi\<rparr>]\<rparr>"
proof -
  have c: "concat [item_interp item] \<noteq> []"
    using ne by simp
  have ez: "deck_window_envelope [item_interp item] tf (fst (deck_zoom_plot_x_range cfg)) =
              Inr (lo, hi)"
    using deck_window_envelope_whole[OF grid zoom c] mn mx by simp
  have el: "deck_window_envelope [item_interp item] tf (fst (deck_last_orbit_plot_x_range cfg)) =
              Inr (lo, hi)"
    using deck_window_envelope_whole[OF grid last c] mn mx by simp
  show ?thesis
    unfolding process_deck_def
    using ne mn mx by (simp add: items ez el Let_def del: set_map)
qed

text \<open>The component of the examples on the grid of the run: a line from -12 to 44.\<close>

lemma battery_grid:
  "time_fine_of [0, 10] \<noteq> []"
  "time_fine_of [0, 10] ! 0 = 0"
  "Min (set (map (\<lambda>t. 28 / 5 * t - 12) (time_fine_of [0, 10]))) = -12"
  "Max (set (map (\<lambda>t. 28 / 5 * t - 12) (time_fine_of [0, 10]))) = 44"
proof -
  let ?tf = "time_fine_of [0, 10 :: real]"
  let ?g = "\<lambda>t::real. 28 / 5 * t - 12"
  have ne: "[0, 10 :: real] \<noteq> []" by simp
  show "?tf \<noteq> []"
    using time_fine_of_length[OF ne] by auto
  show "?tf ! 0 = 0"
    using time_fine_of_first[OF ne] by simp
  show "Min (set (map ?g ?tf)) = -12"
    using time_fine_of_Min_Max(1)[OF ne, of ?g] by simp
  show "Max (set (map ?g ?tf)) = 44"
    using time_fine_of_Min_Max(2)[OF ne, of ?g] by simp
qed

lemma battery_component:
  assumes times: "time_min data_df = [0, 10]"
    and col: "map_of (columns data_df) c = Some [Some (-12), Some 44]"
    and incl: "c \<notin> set (excluded_components cfg)"
  shows "deck_component cfg limits_map data_df (time_fine_of [0, 10]) c =
           Inr (Some \<lparr>item_interp = map (\<lambda>t. 28 / 5 * t - 12) (time_fine_of [0, 10]),
                      item_row = compliance_row (display_name_of c) (-12) 44 (limits_map c)\<rparr>)"
proof -
  let ?tf = "time_fine_of [0, 10 :: real]"
  let ?g = "\<lambda>t::real. 28 / 5 * t - 12"
  have clean: "clean_deck (time_min data_df) [Some (-12), Some 44] = [(0, -12), (10, 44)]"
    by (simp add: times clean_deck_def dropna_def List.map_filter_simps)
  have "deck_component cfg limits_map data_df ?tf c =
     Inr (Some \<lparr>item_interp = map ?g ?tf,
                item_row = compliance_row (display_name_of c)
                  (Min (set (map ?g ?tf))) (Max (set (map ?g ?tf))) (limits_map c)\<rparr>)"
  proof (rule deck_component_two_samples[OF col clean _ incl battery_grid(1)])
    show "(0::real) < 10" by simp
    show "?g = (\<lambda>t. - 12 + (44 - - 12) / (10 - 0) * (t - 0))" by (simp add: fun_eq_iff)
  qed
  then show ?thesis
    unfolding battery_grid(3,4) .
qed

lemma round_outward_example: "round_outward (-12) 44 = (-15, 45)"
  by (simp add: round_outward_def)

lemma sparse_deck:
  "process_deck cfg0 limits_map df_sparse (time_fine_of [0, 10])
       (''PWR'', [''PWR_Battery.T1'', ''PWR_Heater.T2'']) =
     Inr \<lparr>deck_printed = [''Processing Deck: PWR...''],
          deck_report = deck_header ''PWR''
            @ compliance_row ''PWR_Battery'' (-12) 44 (limits_map ''PWR_Battery.T1'') @ newline,
          deck_figures =
            [\<lparr>plot_kind = Deck_Full, plot_entity = ''PWR'',
              plot_curves = [(time_fine_of [0, 10],
                              map (\<lambda>t. 28 / 5 * t - 12) (time_fine_of [0, 10]))],
              plot_hlines = [], plot_ylim = (-20, 60)\<rparr>,
             \<lparr>plot_kind = Deck_Zoomed, plot_entity = ''PWR'',
              plot_curves = window_curves (0, 5) (time_fine_of [0, 10])
                              [map (\<lambda>t. 28 / 5 * t - 12) (time_fine_of [0, 10])],
              plot_hlines = [], plot_ylim = (-15, 45)\<rparr>,
             \<lparr>plot_kind = Deck_Last_Orbit, plot_entity = ''PWR'',
              plot_curves = window_curves (0, 5) (time_fine_of [0, 10])
                              [map (\<lambda>t. 28 / 5 * t - 12) (time_fine_of [0, 10])],
              plot_hlines = [], plot_ylim = (-15, 45)\<rparr>]\<rparr>"
proof -
  let ?tf = "time_fine_of [0, 10 :: real]"
  let ?item = "\<lparr>item_interp = map (\<lambda>t. 28 / 5 * t - 12) ?tf,
                 item_row = compliance_row ''PWR_Battery'' (-12) 44 (limits_map ''PWR_Battery.T1'')\<rparr>"
  have times: "time_min df_sparse = [0, 10]"
    by (simp add: df_sparse_def)
  have col: "map_of (columns df_sparse) ''PWR_Battery.T1'' = Some [Some (-12), Some 44]"
    by (simp add: df_sparse_def)
  have incl: "''PWR_Battery.T1'' \<notin> set (excluded_components cfg0)"
    by (simp add: cfg0_def)
  note b = battery_component[OF times col incl, of limits_map]
  note g = battery_grid
  have battery: "deck_component cfg0 limits_map df_sparse ?tf ''PWR_Battery.T1'' = Inr (Some ?item)"
    using b by (simp add: display_name_of_def)
  have heater: "deck_component cfg0 limits_map df_sparse ?tf ''PWR_Heater.T2'' = Inr None"
    by (simp add: deck_component_def cfg0_def df_sparse_def clean_deck_def dropna_def
        List.map_filter_simps)
  have items: "deck_components cfg0 limits_map df_sparse ?tf
                 [''PWR_Battery.T1'', ''PWR_Heater.T2''] = Inr [?item]"
    by (simp add: battery heater)
  have ne: "item_interp ?item \<noteq> []"
    using g(1) by simp
  have yl: "deck_plot_ylim cfg0 ''PWR'' (-12) 44 = ((-20, 60), [])"
    by (simp add: deck_plot_ylim_def cfg0_def)
  have w: "deck_zoom_plot_x_range cfg0 = (0, 5)" "deck_last_orbit_plot_x_range cfg0 = (0, 5)"
    by (simp_all add: cfg0_def)
  show ?thesis
    using process_deck_single[OF items ne g(1), of "-12" 44 "''PWR''"] g(2,3,4)
    by (simp add: yl w round_outward_example del: set_map)
qed

lemma sparse_run:
  "run cfg0 df_sparse limits_map timestamp now =
     Inr \<lparr>printed =
            [''--> Creating main output directory: '' @ main_output_folder timestamp,
             newline @ ''--> Skipping generation of individual plots for a faster run.'',
             newline @ ''--> Grouping components and generating consolidated plots and report...'',
             ''Processing Deck: PWR...'',
             ''Finished generating consolidated plots and report.'',
             newline @ replicate 85 CHR ''='',
             ''Processing complete.'',
             ''Report saved in: '' @ report_filepath timestamp,
             ''All output generated in folder: '' @ main_output_folder timestamp],
          report_text = report_header now @ deck_header ''PWR''
            @ compliance_row ''PWR_Battery'' (-12) 44 (limits_map ''PWR_Battery.T1'') @ newline,
          figures =
            [\<lparr>plot_kind = Deck_Full, plot_entity = ''PWR'',
              plot_curves = [(time_fine_of [0, 10],
                              map (\<lambda>t. 28 / 5 * t - 12) (time_fine_of [0, 10]))],
              plot_hlines = [], plot_ylim = (-20, 60)\<rparr>,
             \<lparr>plot_kind = Deck_Zoomed, plot_entity = ''PWR'',
              plot_curves = window_curves (0, 5) (time_fine_of [0, 10])
                              [map (\<lambda>t. 28 / 5 * t - 12) (time_fine_of [0, 10])],
              plot_hlines = [], plot_ylim = (-15, 45)\<rparr>,
             \<lparr>plot_kind = Deck_Last_Orbit, plot_entity = ''PWR'',
              plot_curves = window_curves (0, 5) (time_fine_of [0, 10])
                              [map (\<lambda>t. 28 / 5 * t - 12) (time_fine_of [0, 10])],
              plot_hlines = [], plot_ylim = (-15, 45)\<rparr>]\<rparr>"
proof -
  have groups: "deck_groups (map fst (columns df_sparse)) =
                  [(''PWR'', [''PWR_Battery.T1'', ''PWR_Heater.T2''])]"
    by (simp add: df_sparse_def deck_groups_def deck_prefix_of_def display_name_of_def)
  have times: "time_min df_sparse = [0, 10]"
    by (simp add: df_sparse_def)
  have gen: "generate_individual_plots cfg0 = False"
    by (simp add: cfg0_def)
  show ?thesis
    by (simp add: run_def groups times gen sparse_deck Let_def)
qed

subsection \<open>Sorting before the interpolation\<close>

text \<open>
  C8 fails on the deck and report path. The rows of \<^const>\<open>df_unsorted\<close> are at the
  minutes 10, 0 and 20. The individual-plot path sorts them; the deck path hands them to
  the interpolation routine as they are, the routine rejects them, and the run aborts.
\<close>

theorem deck_path_does_not_sort:
  "clean_individual (time_min df_unsorted) [Some 1, Some 2, Some 3] = [(0, 2), (10, 1), (20, 3)] \<and>
   clean_deck (time_min df_unsorted) [Some 1, Some 2, Some 3] = [(10, 1), (0, 2), (20, 3)] \<and>
   deck_component cfg0 Map.empty df_unsorted (time_fine_of (time_min df_unsorted))
     ''PWR_Battery.T1'' = Inl PchipValueError \<and>
   run cfg0 df_unsorted Map.empty ''2024-05-01_12-00-00'' ''2024-05-01 12:00:00'' =
     Inl PchipValueError"
proof -
  have ci: "clean_individual (time_min df_unsorted) [Some 1, Some 2, Some 3] =
              [(0, 2), (10, 1), (20, 3)]"
    by (simp add: df_unsorted_def clean_individual_def dropna_def List.map_filter_simps)
  have cd: "clean_deck (time_min df_unsorted) [Some 1, Some 2, Some 3] =
              [(10, 1), (0, 2), (20, 3)]"
    by (simp add: df_unsorted_def clean_deck_def dropna_def List.map_filter_simps)
  have col: "map_of (columns df_unsorted) ''PWR_Battery.T1'' = Some [Some 1, Some 2, Some 3]"
    by (simp add: df_unsorted_def)
  have dc: "deck_component cfg0 Map.empty df_unsorted tf ''PWR_Battery.T1'' = Inl PchipValueError"
    for tf
    by (simp add: deck_component_def col cd cfg0_def pchip_interpolate_def)
  have groups: "deck_groups (map fst (columns df_unsorted)) = [(''PWR'', [''PWR_Battery.T1''])]"
    by (simp add: df_unsorted_def deck_groups_def deck_prefix_of_def display_name_of_def)
  have gen: "generate_individual_plots cfg0 = False"
    by (simp add: cfg0_def)
  have "run cfg0 df_unsorted Map.empty ''2024-05-01_12-00-00'' ''2024-05-01 12:00:00'' =
          Inl PchipValueError"
    by (simp add: run_def groups gen process_deck_def dc Let_def)
  with ci cd dc show ?thesis by simp
qed

subsection \<open>The envelope of a deck window\<close>

lemma zip_map_same: "zip xs (map f xs) = map (\<lambda>t. (t, f t)) xs"
  by (induction xs) auto

lemma masked_map:
  "map snd (masked r xs (map f xs)) = map f (filter (\<lambda>t. fst r \<le> t \<and> t \<le> snd r) xs)"
  by (simp add: masked_def zip_map_same filter_map comp_def)

text \<open>
  C7 fails for the deck windows. The zoomed window of \<^const>\<open>cfg0\<close> is [0, 5]; the only
  contributing series of the deck rises from -12 at minute 0 to 44 at minute 10. Inside the
  window no value exceeds 16, but the envelope runs from the first grid point of the
  window to the end of the grid and is (-12, 44); the Y limits of the two zoomed deck
  figures are (-15, 45).
\<close>

theorem deck_window_runs_to_end:
  "deck_zoom_plot_x_range cfg0 = (0, 5) \<and>
   deck_window_envelope [map (\<lambda>t. 28 / 5 * t - 12) (time_fine_of [0, 10])]
     (time_fine_of [0, 10]) 0 = Inr (-12, 44) \<and>
   Max (set (map snd (masked (0, 5) (time_fine_of [0, 10])
                        (map (\<lambda>t. 28 / 5 * t - 12) (time_fine_of [0, 10]))))) \<le> 16 \<and>
   map_sum id (map plot_ylim \<circ> deck_figures)
     (process_deck cfg0 Map.empty df_sparse (time_fine_of (time_min df_sparse))
        (''PWR'', [''PWR_Battery.T1'', ''PWR_Heater.T2''])) =
     Inr [(-20, 60), (-15, 45), (-15, 45)]"
proof -
  let ?tf = "time_fine_of [0, 10 :: real]"
  let ?g = "\<lambda>t::real. 28 / 5 * t - 12"
  have times: "time_min df_sparse = [0, 10]"
    by (simp add: df_sparse_def)
  have env: "deck_window_envelope [map ?g ?tf] ?tf 0 = Inr (-12, 44)"
    using deck_window_envelope_whole[of ?tf 0 "[map ?g ?tf]"] battery_grid
    by (simp del: set_map)
  have zero: "0 \<in> set ?tf"
    using battery_grid(1,2) by (metis length_greater_0_conv nth_mem)
  have "Max (set (map ?g (filter (\<lambda>t. 0 \<le> t \<and> t \<le> 5) ?tf))) \<le> 16"
  proof (subst Max_le_iff)
    show "finite (set (map ?g (filter (\<lambda>t. 0 \<le> t \<and> t \<le> 5) ?tf)))" by simp
    show "set (map ?g (filter (\<lambda>t. 0 \<le> t \<and> t \<le> 5) ?tf)) \<noteq> {}"
      using zero by (auto simp: filter_empty_conv)
    show "\<forall>a\<in>set (map ?g (filter (\<lambda>t. 0 \<le> t \<and> t \<le> 5) ?tf)). a \<le> 16"
      by auto
  qed
  then have inside: "Max (set (map snd (masked (0, 5) ?tf (map ?g ?tf)))) \<le> 16"
    by (simp only: masked_map fst_conv snd_conv)
  have "map_sum id (map plot_ylim \<circ> deck_figures)
     (process_deck cfg0 Map.empty df_sparse (time_fine_of (time_min df_sparse))
        (''PWR'', [''PWR_Battery.T1'', ''PWR_Heater.T2''])) =
     Inr [(-20, 60), (-15, 45), (-15, 45)]"
    by (simp add: times sparse_deck)
  with env inside show ?thesis
    by (simp add: cfg0_def)
qed

subsection \<open>Skipped components\<close>

text \<open>
  C4 fails on the deck and report path. In \<^const>\<open>df_sparse\<close> the heater has one valid
  sample. With the individual plots switched off the run completes, the report has the
  battery's line only, and nothing that is printed mentions the heater; the
  individual-plot path prints the skip message for the same component.
\<close>

theorem deck_path_skips_silently:
  "generate_individual_plots cfg0 = False \<and>
   length (clean_deck (time_min df_sparse) [Some 20, None]) = 1 \<and>
   map_sum id printed
       (run cfg0 df_sparse [''PWR_Battery.T1'' \<mapsto> lims0] ''2024-05-01_12-00-00''
          ''2024-05-01 12:00:00'') =
     Inr [''--> Creating main output directory: Thermal_Analysis_Output_2024-05-01_12-00-00'',
          newline @ ''--> Skipping generation of individual plots for a faster run.'',
          newline @ ''--> Grouping components and generating consolidated plots and report...'',
          ''Processing Deck: PWR...'',
          ''Finished generating consolidated plots and report.'',
          newline @ replicate 85 CHR ''='',
          ''Processing complete.'',
          ''Report saved in: Thermal_Analysis_Output_2024-05-01_12-00-00/Report/thermal_report.txt'',
          ''All output generated in folder: Thermal_Analysis_Output_2024-05-01_12-00-00''] \<and>
   map_sum id report_text
       (run cfg0 df_sparse [''PWR_Battery.T1'' \<mapsto> lims0] ''2024-05-01_12-00-00''
          ''2024-05-01 12:00:00'') =
     Inr (report_header ''2024-05-01 12:00:00'' @ deck_header ''PWR''
          @ report_row ''PWR Battery'' ''[-12.0 , 44.0  ]'' ''[-10   , 50    ]'' ''6.00'' ''FAIL''
          @ newline) \<and>
   individual_plots_for cfg0 df_sparse (time_fine_of (time_min df_sparse)) ''PWR_Heater.T2'' =
     Inr ([skipping_message ''PWR_Heater.T2''], [])"
proof -
  have "length (clean_deck (time_min df_sparse) [Some 20, None]) = 1"
    by (simp add: df_sparse_def clean_deck_def dropna_def List.map_filter_simps)
  moreover have "individual_plots_for cfg0 df_sparse tf ''PWR_Heater.T2'' =
     Inr ([skipping_message ''PWR_Heater.T2''], [])" for tf
    by (simp add: individual_plots_for_def df_sparse_def clean_individual_def dropna_def
        List.map_filter_simps)
  moreover have "generate_individual_plots cfg0 = False"
    by (simp add: cfg0_def)
  ultimately show ?thesis
    by (simp add: sparse_run compliance_row_examples main_output_folder_def report_filepath_def)
qed

subsection \<open>The report and the clock\<close>

text \<open>
  C5, as the specification states it, fails: the fourth line of the report carries the
  time of the run (line 313), so two runs on the same table and the same configuration
  one second apart write different texts.
\<close>

theorem report_differs_with_clock:
  "map_sum id report_text
     (run cfg0 df_sparse Map.empty ''2024-05-01_12-00-00'' ''2024-05-01 12:00:00'') \<noteq>
   map_sum id report_text
     (run cfg0 df_sparse Map.empty ''2024-05-01_12-00-01'' ''2024-05-01 12:00:01'')"
  by (simp add: sparse_run report_header_def)

text \<open>
  C5, amended. The report text is a function of the table, the limits, the
  configuration and the reading of the clock at line 313. It does not depend on the
  reading at line 113, which names the output folder. Two runs on the same inputs abort
  with the same error, or write report texts that begin with the header of their own
  reading and agree in everything after the header; the header is three fixed lines, the
  line \<^verbatim>\<open>Generated on:\<close> with the reading, and an empty line. With the same reading at line
  313 the two texts are identical.
\<close>

theorem report_same_up_to_clock:
  "map_sum id report_text (run cfg data_df limits_map timestamp_b now_b) =
     map_sum id
       (\<lambda>out. report_header now_b @ drop (length (report_header now_a)) (report_text out))
       (run cfg data_df limits_map timestamp_a now_a) \<and>
   map_sum id (take (length (report_header now_a)) \<circ> report_text)
       (run cfg data_df limits_map timestamp_a now_a) =
     map_sum id (\<lambda>out. report_header now_a) (run cfg data_df limits_map timestamp_a now_a) \<and>
   map_sum id report_text (run cfg data_df limits_map timestamp_b now_a) =
     map_sum id report_text (run cfg data_df limits_map timestamp_a now_a) \<and>
   report_header now_a =
     replicate 85 CHR ''='' @ newline @ ''SATELLITE THERMAL ANALYSIS REPORT'' @ newline
       @ replicate 85 CHR ''='' @ newline @ ''Generated on: '' @ now_a @ newline @ newline"
proof (intro conjI)
  show "map_sum id report_text (run cfg data_df limits_map timestamp_b now_b) =
     map_sum id
       (\<lambda>out. report_header now_b @ drop (length (report_header now_a)) (report_text out))
       (run cfg data_df limits_map timestamp_a now_a)"
    by (auto simp: run_def Let_def split: sum.splits prod.splits)
  show "map_sum id (take (length (report_header now_a)) \<circ> report_text)
          (run cfg data_df limits_map timestamp_a now_a) =
        map_sum id (\<lambda>out. report_header now_a) (run cfg data_df limits_map timestamp_a now_a)"
    by (auto simp: run_def Let_def split: sum.splits prod.splits)
  show "map_sum id report_text (run cfg data_df limits_map timestamp_b now_a) =
     map_sum id report_text (run cfg data_df limits_map timestamp_a now_a)"
    by (auto simp: run_def Let_def split: sum.splits prod.splits)
  show "report_header now_a =
     replicate 85 CHR ''='' @ newline @ ''SATELLITE THERMAL ANALYSIS REPORT'' @ newline
       @ replicate 85 CHR ''='' @ newline @ ''Generated on: '' @ now_a @ newline @ newline"
    by (simp add: report_header_def)
qed

theorem report_same_up_to_clock_witness:
  "map_sum id report_text
     (run cfg0 df_sparse Map.empty ''2024-05-01_12-00-01'' ''2024-05-01 12:00:01'') =
     Inr (report_header ''2024-05-01 12:00:01'' @ deck_header ''PWR''
          @ ''PWR Battery               | N/A             | N/A                | N/A             | NO LIMITS ''
          @ newline @ newline)"
proof -
  let ?line = "''PWR Battery               | N/A             | N/A                | N/A             | NO LIMITS ''"
  have "report_row ''PWR Battery'' ''N/A'' ''N/A'' ''N/A'' ''NO LIMITS'' = ?line @ newline"
    by (simp add: no_limits_line ljust_def replicate_numeral)
  then have body: "compliance_row ''PWR_Battery'' (-12) 44 (Map.empty ''PWR_Battery.T1'') =
      ?line @ newline"
    by (simp add: compliance_row_def underscores_to_spaces_def)
  have first: "run cfg0 df_sparse Map.empty ''2024-05-01_12-00-00'' ''2024-05-01 12:00:00'' =
      Inr \<lparr>printed = printed (projr (run cfg0 df_sparse Map.empty ''2024-05-01_12-00-00''
                                       ''2024-05-01 12:00:00'')),
           report_text = report_header ''2024-05-01 12:00:00'' @ deck_header ''PWR''
                           @ (?line @ newline) @ newline,
           figures = figures (projr (run cfg0 df_sparse Map.empty ''2024-05-01_12-00-00''
                                       ''2024-05-01 12:00:00''))\<rparr>"
    unfolding sparse_run body by simp
  have "map_sum id report_text
          (run cfg0 df_sparse Map.empty ''2024-05-01_12-00-01'' ''2024-05-01 12:00:01'') =
        map_sum id
          (\<lambda>out. report_header ''2024-05-01 12:00:01''
                   @ drop (length (report_header ''2024-05-01 12:00:00'')) (report_text out))
          (run cfg0 df_sparse Map.empty ''2024-05-01_12-00-00'' ''2024-05-01 12:00:00'')"
    using report_same_up_to_clock[where cfg = cfg0 and data_df = df_sparse
        and limits_map = Map.empty and timestamp_b = "''2024-05-01_12-00-01''"
        and now_b = "''2024-05-01 12:00:01''" and timestamp_a = "''2024-05-01_12-00-00''"
        and now_a = "''2024-05-01 12:00:00''"]
    by (rule conjunct1)
  also have "\<dots> = Inr (report_header ''2024-05-01 12:00:01'' @ deck_header ''PWR''
                         @ (?line @ newline) @ newline)"
    by (subst first) simp
  finally show ?thesis by simp
qed

subsection \<open>Y-axis ranges\<close>








end
